theory Spec2Isabelle
  imports Main "HOL-Library.Word"
begin

section \<open>Peer replication of the Eureka front end (apiserver/eurekaserver/replicate.go)\<close>

text \<open>
  The theory embeds the six functions of \<^verbatim>\<open>replicate.go\<close>:
  \<^verbatim>\<open>BatchReplication\<close>, \<^verbatim>\<open>doBatchReplicate\<close>, \<^verbatim>\<open>dispatch\<close>,
  \<^verbatim>\<open>eventToInstance\<close>, \<^verbatim>\<open>shouldReplicate\<close> and \<^verbatim>\<open>handleInstanceEvent\<close>.
  Logging calls have no effect on any value and are left out. Everything the file uses
  but does not declare (helpers of the package, the registry operations of the server,
  types of other packages) is a parameter of the embedding or is said to be modelled.
\<close>

subsection \<open>Constants of the file\<close>

definition actionRegister :: string where
  "actionRegister = ''Register''"

definition actionHeartbeat :: string where
  "actionHeartbeat = ''Heartbeat''"

definition actionCancel :: string where
  "actionCancel = ''Cancel''"

definition actionStatusUpdate :: string where
  "actionStatusUpdate = ''StatusUpdate''"

definition actionDeleteStatusOverride :: string where
  "actionDeleteStatusOverride = ''DeleteStatusOverride''"

definition headerIdentityName :: string where
  "headerIdentityName = ''DiscoveryIdentity-Name''"

definition valueIdentityName :: string where
  "valueIdentityName = ''PolarisServer''"

subsection \<open>Constants of other packages\<close>

text \<open>
  Protocol codes are \<^verbatim>\<open>uint32\<close> constants of package \<^verbatim>\<open>api\<close>. The file only
  compares them for equality, so the named ones are constructors (pairwise different, as
  the constants are) and \<open>OtherCode\<close> stands for every other value a registry
  operation may return. \<open>AuthException\<close> is not referenced by the file: it is the name
  the specification's error taxonomy uses for a rejected credential.
\<close>

datatype code =
    ExecuteSuccess
  | ParseException
  | ExistedResource
  | NotFoundResource
  | SameInstanceRequest
  | HeartbeatExceedLimit
  | ExecuteException
  | AuthException
  | OtherCode "32 word"

text \<open>The status codes of \<^verbatim>\<open>net/http\<close>.\<close>

definition StatusOK :: int where
  "StatusOK = 200"

definition StatusBadRequest :: int where
  "StatusBadRequest = 400"

definition StatusForbidden :: int where
  "StatusForbidden = 403"

definition StatusNotFound :: int where
  "StatusNotFound = 404"

text \<open>
  Modelled from the spec: the instance status strings \<^verbatim>\<open>StatusUp\<close>,
  \<^verbatim>\<open>StatusDown\<close> and \<^verbatim>\<open>StatusOutOfService\<close> are declared elsewhere in the
  package. The specification names them Up, Down and OutOfService, members of the status
  enumeration of the legacy protocol; a status field that was never assigned holds Go's
  zero value, the empty string.
\<close>

definition StatusUp :: string where
  "StatusUp = ''UP''"

definition StatusDown :: string where
  "StatusDown = ''DOWN''"

definition StatusOutOfService :: string where
  "StatusOutOfService = ''OUT_OF_SERVICE''"

text \<open>\<^verbatim>\<open>strconv.ParseBool\<close>: the value and whether an error is returned.\<close>

definition ParseBool :: "string \<Rightarrow> bool \<times> bool" where
  "ParseBool str =
     (if str \<in> {''1'', ''t'', ''T'', ''true'', ''TRUE'', ''True''} then (True, False)
      else if str \<in> {''0'', ''f'', ''F'', ''false'', ''FALSE'', ''False''} then (False, False)
      else (False, True))"

subsection \<open>Data\<close>

text \<open>
  \<^verbatim>\<open>apiservice.Instance\<close>, the fields the file reads or writes. A wrapper field is a
  pointer, so it is an option; the generated getters are nil-safe and \<^verbatim>\<open>GetValue\<close>
  of a nil wrapper is the zero value. The health-check and location messages are opaque
  here: \<open>'hc\<close> and \<open>'loc\<close>.
\<close>

record ('hc, 'loc) Instance =
  pb_Id :: "string option"
  pb_Host :: "string option"
  pb_Port :: "32 word option"
  pb_Protocol :: "string option"
  pb_Version :: "string option"
  pb_Priority :: "32 word option"
  pb_Weight :: "32 word option"
  pb_EnableHealthCheck :: "bool option"
  pb_HealthCheck :: "'hc option"
  pb_Healthy :: "bool option"
  pb_Isolate :: "bool option"
  pb_Location :: "'loc option"
  pb_Metadata :: "string \<rightharpoonup> string"

definition GetString :: "string option \<Rightarrow> string" where
  "GetString w = (case w of None \<Rightarrow> [] | Some v \<Rightarrow> v)"

definition GetUInt32 :: "32 word option \<Rightarrow> 32 word" where
  "GetUInt32 w = (case w of None \<Rightarrow> 0 | Some v \<Rightarrow> v)"

definition GetBool :: "bool option \<Rightarrow> bool" where
  "GetBool w = (case w of None \<Rightarrow> False | Some v \<Rightarrow> v)"

definition GetHost :: "('hc, 'loc) Instance option \<Rightarrow> string option" where
  "GetHost x = (case x of None \<Rightarrow> None | Some i \<Rightarrow> pb_Host i)"

definition GetPort :: "('hc, 'loc) Instance option \<Rightarrow> 32 word option" where
  "GetPort x = (case x of None \<Rightarrow> None | Some i \<Rightarrow> pb_Port i)"

definition GetProtocol :: "('hc, 'loc) Instance option \<Rightarrow> string option" where
  "GetProtocol x = (case x of None \<Rightarrow> None | Some i \<Rightarrow> pb_Protocol i)"

definition GetVersion :: "('hc, 'loc) Instance option \<Rightarrow> string option" where
  "GetVersion x = (case x of None \<Rightarrow> None | Some i \<Rightarrow> pb_Version i)"

definition GetPriority :: "('hc, 'loc) Instance option \<Rightarrow> 32 word option" where
  "GetPriority x = (case x of None \<Rightarrow> None | Some i \<Rightarrow> pb_Priority i)"

definition GetWeight :: "('hc, 'loc) Instance option \<Rightarrow> 32 word option" where
  "GetWeight x = (case x of None \<Rightarrow> None | Some i \<Rightarrow> pb_Weight i)"

definition GetEnableHealthCheck :: "('hc, 'loc) Instance option \<Rightarrow> bool option" where
  "GetEnableHealthCheck x = (case x of None \<Rightarrow> None | Some i \<Rightarrow> pb_EnableHealthCheck i)"

definition GetHealthCheck :: "('hc, 'loc) Instance option \<Rightarrow> 'hc option" where
  "GetHealthCheck x = (case x of None \<Rightarrow> None | Some i \<Rightarrow> pb_HealthCheck i)"

definition GetHealthy :: "('hc, 'loc) Instance option \<Rightarrow> bool option" where
  "GetHealthy x = (case x of None \<Rightarrow> None | Some i \<Rightarrow> pb_Healthy i)"

definition GetIsolate :: "('hc, 'loc) Instance option \<Rightarrow> bool option" where
  "GetIsolate x = (case x of None \<Rightarrow> None | Some i \<Rightarrow> pb_Isolate i)"

definition GetLocation :: "('hc, 'loc) Instance option \<Rightarrow> 'loc option" where
  "GetLocation x = (case x of None \<Rightarrow> None | Some i \<Rightarrow> pb_Location i)"

definition GetMetadata :: "('hc, 'loc) Instance option \<Rightarrow> (string \<rightharpoonup> string)" where
  "GetMetadata x = (case x of None \<Rightarrow> Map.empty | Some i \<Rightarrow> pb_Metadata i)"

text \<open>The event kinds of package \<^verbatim>\<open>model\<close>; \<open>EventOther\<close> is any kind the file does not name.\<close>

datatype InstanceEventType =
    EventInstanceOnline
  | EventInstanceOffline
  | EventInstanceSendHeartbeat
  | EventInstanceTurnHealth
  | EventInstanceTurnUnHealth
  | EventInstanceOpenIsolate
  | EventInstanceCloseIsolate
  | EventOther string

text \<open>\<^verbatim>\<open>model.InstanceEvent\<close>, the fields the file reads.\<close>

record ('hc, 'loc) InstanceEvent =
  ev_Id :: string
  ev_Namespace :: string
  ev_Service :: string
  ev_Instance :: "('hc, 'loc) Instance option"
  ev_EType :: InstanceEventType
  ev_MetaData :: "string \<rightharpoonup> string"

text \<open>
  \<^verbatim>\<open>ReplicationInstance\<close>, one replication task. The snapshot type
  \<^verbatim>\<open>InstanceInfo\<close> is declared elsewhere and is the parameter \<open>'i\<close>; the field is a
  pointer. The timestamp is an \<^verbatim>\<open>int64\<close> that is only stored, never computed with.
  The record is the task a non-nil pointer refers to; where the code holds a pointer
  that may be nil (the entries of a decoded batch), the model holds an option.
\<close>

record 'i ReplicationInstance =
  ri_AppName :: string
  ri_Id :: string
  ri_LastDirtyTimestamp :: int
  ri_OverriddenStatus :: string
  ri_Status :: string
  ri_InstanceInfo :: "'i option"
  ri_Action :: string

record ReplicationInstanceResponse =
  StatusCode :: int

record ReplicationListResponse =
  ResponseList :: "ReplicationInstanceResponse list"

text \<open>
  The inbound request as the handler sees it: its header parameters and the outcome of
  \<^verbatim>\<open>req.ReadEntity\<close> into a \<^verbatim>\<open>ReplicationList\<close> (\<open>None\<close> when decoding returns an
  error, otherwise the decoded list). The list is a \<^verbatim>\<open>[]*ReplicationInstance\<close>: a
  JSON \<^verbatim>\<open>null\<close> in the array decodes to a nil entry, \<open>None\<close> here.
\<close>

record 'i Request =
  rq_Header :: "string \<rightharpoonup> string"
  rq_Entity :: "'i ReplicationInstance option list option"

definition HeaderParameter :: "'i Request \<Rightarrow> string \<Rightarrow> string" where
  "HeaderParameter req name = (case rq_Header req name of None \<Rightarrow> [] | Some v \<Rightarrow> v)"

subsection \<open>What the package declares outside the file\<close>

text \<open>
  The helpers \<^verbatim>\<open>formatReadName\<close>, \<^verbatim>\<open>buildInstance\<close>, \<^verbatim>\<open>convertInstancePorts\<close>
  and \<^verbatim>\<open>getAuthFromEurekaRequestHeader\<close> and the constant \<^verbatim>\<open>MetadataReplicate\<close>
  are parameters. \<^verbatim>\<open>convertInstancePorts\<close> receives the pointer to the snapshot and
  its error is discarded by the caller, so what remains of the call is the snapshot as
  it leaves it. \<^verbatim>\<open>getAuthFromEurekaRequestHeader\<close> gives the token, or \<open>None\<close> for
  an error.
\<close>

record ('i, 'hc, 'loc) package =
  MetadataReplicate :: string
  formatReadName :: "string \<Rightarrow> string"
  buildInstance :: "string \<Rightarrow> ('hc, 'loc) Instance \<Rightarrow> int \<Rightarrow> 'i option"
  convertInstancePorts :: "'i \<Rightarrow> 'i"
  getAuthFromEurekaRequestHeader :: "'i Request \<Rightarrow> string option"

text \<open>
  The registry operations of the server (\<^verbatim>\<open>registerInstances\<close>, \<^verbatim>\<open>renew\<close>,
  \<^verbatim>\<open>deregisterInstance\<close>, \<^verbatim>\<open>updateStatus\<close>) are black boxes on a registry state
  \<open>'s\<close>. A call is a value that records the operation and its arguments (the context
  carries the auth token and nothing else); the registry answers a call in a state with
  a code and the next state; it is taken not to write through the pointers it is given.
  The world the dispatcher runs in is the registry state together with the calls made so
  far, oldest first.
\<close>

datatype 'i call =
    RegisterInstances string string "'i option" bool
  | Renew string string string bool
  | DeregisterInstance string string string bool
  | UpdateStatus string string string string bool

type_synonym ('i, 's) registry = "'i call \<Rightarrow> 's \<Rightarrow> code \<times> 's"

type_synonym ('i, 's) world = "'s \<times> 'i call list"

definition invoke :: "('i, 's) registry \<Rightarrow> 'i call \<Rightarrow> ('i, 's) world \<Rightarrow> code \<times> ('i, 's) world" where
  "invoke h c w = (case h c (fst w) of (retCode, s') \<Rightarrow> (retCode, (s', snd w @ [c])))"

text \<open>
  The run-time panics of the file: the only one is the dereference of a nil task pointer
  by the first statement of \<^verbatim>\<open>dispatch\<close>.
\<close>

datatype panic = NilPointerDereference

text \<open>
  What the handler does to the exchange, in order: what it writes, or that it panics,
  after which it writes nothing.
\<close>

datatype effect =
    WritePolarisStatusCode code
  | WriteHeader int
  | WriteEurekaResponseWithCode ReplicationListResponse code
  | Panics panic

text \<open>
  Modelled from the spec: \<^verbatim>\<open>writeEurekaResponse\<close> is declared elsewhere in the
  package. The specification says of its one use here that the handler returns a success
  batch, so it writes the body with the code \<open>ExecuteSuccess\<close>.
\<close>

definition writeEurekaResponse :: "ReplicationListResponse \<Rightarrow> effect" where
  "writeEurekaResponse output = WriteEurekaResponseWithCode output ExecuteSuccess"

subsection \<open>The inbound path\<close>

text \<open>
  \<^verbatim>\<open>dispatch\<close> on the task its pointer argument refers to. Its first statement
  reads a field through the pointer, so for a nil pointer the call panics before anything
  else happens; that case is the equation of the loop below for an entry \<open>None\<close>.
\<close>

definition dispatch ::
  "('i, 'hc, 'loc) package \<Rightarrow> ('i, 's) registry \<Rightarrow> 'i ReplicationInstance \<Rightarrow> string \<Rightarrow>
   ('i, 's) world \<Rightarrow> ReplicationInstanceResponse \<times> code \<times> 'i ReplicationInstance \<times> ('i, 's) world" where
  "dispatch pkg h replicationInstance token w =
     (let appName = formatReadName pkg (ri_AppName replicationInstance);
          ctx = token;
          replicationInstance' =
            (case ri_InstanceInfo replicationInstance of
               None \<Rightarrow> replicationInstance
             | Some info \<Rightarrow>
                 replicationInstance\<lparr>ri_InstanceInfo := Some (convertInstancePorts pkg info)\<rparr>);
          (retCode, w') =
            (if ri_Action replicationInstance' = actionRegister then
               (case invoke h (RegisterInstances ctx appName
                                 (ri_InstanceInfo replicationInstance') True) w of
                  (rc, w1) \<Rightarrow>
                    (if rc = ExecuteSuccess \<or> rc = ExistedResource \<or> rc = SameInstanceRequest
                     then ExecuteSuccess else rc, w1))
             else if ri_Action replicationInstance' = actionHeartbeat then
               (case invoke h (Renew ctx appName (ri_Id replicationInstance') True) w of
                  (rc, w1) \<Rightarrow>
                    (if rc = ExecuteSuccess \<or> rc = HeartbeatExceedLimit
                     then ExecuteSuccess else rc, w1))
             else if ri_Action replicationInstance' = actionCancel then
               (case invoke h (DeregisterInstance ctx appName (ri_Id replicationInstance') True) w of
                  (rc, w1) \<Rightarrow>
                    (if rc = ExecuteSuccess \<or> rc = NotFoundResource \<or> rc = SameInstanceRequest
                     then ExecuteSuccess else rc, w1))
             else if ri_Action replicationInstance' = actionStatusUpdate then
               invoke h (UpdateStatus ctx appName (ri_Id replicationInstance')
                           (ri_Status replicationInstance') True) w
             else if ri_Action replicationInstance' = actionDeleteStatusOverride then
               invoke h (UpdateStatus ctx appName (ri_Id replicationInstance') StatusUp True) w
             else (ExecuteSuccess, w));
          statusCode = (if retCode = NotFoundResource then StatusNotFound else StatusOK)
      in (\<lparr>StatusCode = statusCode\<rparr>, retCode, replicationInstance', w'))"

text \<open>
  The loop of \<^verbatim>\<open>doBatchReplicate\<close>: the accumulator is the response list so far, the
  result code so far and the world. The loop either panics, in the world the entries
  before the nil one left, or runs to its end.
\<close>

fun doBatchLoop ::
  "('i, 'hc, 'loc) package \<Rightarrow> ('i, 's) registry \<Rightarrow> string \<Rightarrow>
   'i ReplicationInstance option list \<Rightarrow>
   ReplicationInstanceResponse list \<times> code \<times> ('i, 's) world \<Rightarrow>
   panic \<times> ('i, 's) world + ReplicationInstanceResponse list \<times> code \<times> ('i, 's) world" where
  "doBatchLoop pkg h token [] acc = Inr acc"
| "doBatchLoop pkg h token (None # rest) (responses, resultCode, w) =
     Inl (NilPointerDereference, w)"
| "doBatchLoop pkg h token (Some instanceInfo # rest) (responses, resultCode, w) =
     (case dispatch pkg h instanceInfo token w of
        (resp, code, _, w') \<Rightarrow>
          doBatchLoop pkg h token rest
            (responses @ [resp], (if code \<noteq> ExecuteSuccess then code else resultCode), w'))"

definition doBatchReplicate ::
  "('i, 'hc, 'loc) package \<Rightarrow> ('i, 's) registry \<Rightarrow> 'i ReplicationInstance option list \<Rightarrow>
   string \<Rightarrow> ('i, 's) world \<Rightarrow>
   panic \<times> ('i, 's) world + ReplicationListResponse \<times> code \<times> ('i, 's) world" where
  "doBatchReplicate pkg h replicateRequest token w =
     (case doBatchLoop pkg h token replicateRequest ([], ExecuteSuccess, w) of
        Inl p \<Rightarrow> Inl p
      | Inr (responses, resultCode, w') \<Rightarrow> Inr (\<lparr>ResponseList = responses\<rparr>, resultCode, w'))"

definition BatchReplication ::
  "('i, 'hc, 'loc) package \<Rightarrow> ('i, 's) registry \<Rightarrow> 'i Request \<Rightarrow> ('i, 's) world \<Rightarrow>
   effect list \<times> ('i, 's) world" where
  "BatchReplication pkg h req w =
     (let sourceSvrName = HeaderParameter req headerIdentityName in
      if sourceSvrName = valueIdentityName then
        ([writeEurekaResponse \<lparr>ResponseList = []\<rparr>], w)
      else
        (case rq_Entity req of
           None \<Rightarrow> ([WritePolarisStatusCode ParseException, WriteHeader StatusBadRequest], w)
         | Some replicateRequest \<Rightarrow>
             (case getAuthFromEurekaRequestHeader pkg req of
                None \<Rightarrow> ([WritePolarisStatusCode ExecuteException, WriteHeader StatusForbidden], w)
              | Some token \<Rightarrow>
                  (case doBatchReplicate pkg h replicateRequest token w of
                     Inl (p, w') \<Rightarrow> ([Panics p], w')
                   | Inr (batchResponse, resultCode, w') \<Rightarrow>
                       ([WriteEurekaResponseWithCode batchResponse resultCode], w')))))"

subsection \<open>The outbound path\<close>

text \<open>
  The \<^verbatim>\<open>apiservice.Instance\<close> that \<^verbatim>\<open>eventToInstance\<close> assembles (every wrapper
  freshly allocated, so never nil) and then adjusts by the event kind, before it hands
  it to \<^verbatim>\<open>buildInstance\<close>.
\<close>

definition eventInstance :: "('hc, 'loc) InstanceEvent \<Rightarrow> ('hc, 'loc) Instance" where
  "eventInstance event =
     (let instance =
            \<lparr>pb_Id = Some (ev_Id event),
             pb_Host = Some (GetString (GetHost (ev_Instance event))),
             pb_Port = Some (GetUInt32 (GetPort (ev_Instance event))),
             pb_Protocol = Some (GetString (GetProtocol (ev_Instance event))),
             pb_Version = Some (GetString (GetVersion (ev_Instance event))),
             pb_Priority = Some (GetUInt32 (GetPriority (ev_Instance event))),
             pb_Weight = Some (GetUInt32 (GetWeight (ev_Instance event))),
             pb_EnableHealthCheck = Some (GetBool (GetEnableHealthCheck (ev_Instance event))),
             pb_HealthCheck = GetHealthCheck (ev_Instance event),
             pb_Healthy = Some (GetBool (GetHealthy (ev_Instance event))),
             pb_Isolate = Some (GetBool (GetIsolate (ev_Instance event))),
             pb_Location = GetLocation (ev_Instance event),
             pb_Metadata = GetMetadata (ev_Instance event)\<rparr>
      in if ev_EType event = EventInstanceTurnHealth then instance\<lparr>pb_Healthy := Some True\<rparr>
         else if ev_EType event = EventInstanceTurnUnHealth then instance\<lparr>pb_Healthy := Some False\<rparr>
         else if ev_EType event = EventInstanceOpenIsolate then instance\<lparr>pb_Isolate := Some True\<rparr>
         else if ev_EType event = EventInstanceCloseIsolate then instance\<lparr>pb_Isolate := Some False\<rparr>
         else instance)"

definition eventToInstance ::
  "('i, 'hc, 'loc) package \<Rightarrow> ('hc, 'loc) InstanceEvent \<Rightarrow> string \<Rightarrow> int \<Rightarrow> 'i option" where
  "eventToInstance pkg event appName curTimeMilli =
     buildInstance pkg appName (eventInstance event) curTimeMilli"

text \<open>The server field \<^verbatim>\<open>h.namespace\<close> is the argument \<open>namespace\<close>.\<close>

definition shouldReplicate ::
  "('i, 'hc, 'loc) package \<Rightarrow> string \<Rightarrow> ('hc, 'loc) InstanceEvent \<Rightarrow> bool" where
  "shouldReplicate pkg namespace e =
     (if ev_Namespace e \<noteq> namespace then False
      else
        (let metadata = ev_MetaData e in
         if dom metadata \<noteq> {} then
           (case metadata (MetadataReplicate pkg) of
              Some v \<Rightarrow> (let isReplicate = fst (ParseBool v) in \<not> isReplicate)
            | None \<Rightarrow> True)
         else True))"

text \<open>A task all of whose fields hold Go's zero value, as a composite literal starts.\<close>

definition zeroTask :: "'i ReplicationInstance" where
  "zeroTask =
     \<lparr>ri_AppName = [], ri_Id = [], ri_LastDirtyTimestamp = 0, ri_OverriddenStatus = [],
      ri_Status = [], ri_InstanceInfo = None, ri_Action = []\<rparr>"

text \<open>
  \<^verbatim>\<open>handleInstanceEvent\<close>: the replicate worker is the queue of tasks handed to
  \<^verbatim>\<open>AddReplicateTask\<close>, oldest first; \<open>curTimeMilli\<close> is the clock reading
  \<^verbatim>\<open>time.Now().UnixMilli()\<close>. The function always returns a nil error.
\<close>

definition handleInstanceEvent ::
  "('i, 'hc, 'loc) package \<Rightarrow> string \<Rightarrow> int \<Rightarrow> ('hc, 'loc) InstanceEvent \<Rightarrow>
   'i ReplicationInstance list \<Rightarrow> 'i ReplicationInstance list" where
  "handleInstanceEvent pkg namespace curTimeMilli e queue =
     (if \<not> shouldReplicate pkg namespace e then queue
      else
        (let appName = formatReadName pkg (ev_Service e) in
         case ev_EType e of
           EventInstanceOnline \<Rightarrow>
             (let instanceInfo = eventToInstance pkg e appName curTimeMilli in
              queue @ [zeroTask\<lparr>ri_AppName := appName, ri_Id := ev_Id e,
                                ri_LastDirtyTimestamp := curTimeMilli, ri_Status := StatusUp,
                                ri_InstanceInfo := instanceInfo, ri_Action := actionRegister\<rparr>])
         | EventInstanceOffline \<Rightarrow>
             queue @ [zeroTask\<lparr>ri_AppName := appName, ri_Id := ev_Id e,
                               ri_Action := actionCancel\<rparr>]
         | EventInstanceSendHeartbeat \<Rightarrow>
             (let instanceInfo = eventToInstance pkg e appName curTimeMilli;
                  rInstance = zeroTask\<lparr>ri_AppName := appName, ri_Id := ev_Id e,
                                        ri_Status := StatusUp, ri_InstanceInfo := instanceInfo,
                                        ri_Action := actionHeartbeat\<rparr>;
                  rInstance' = (if GetBool (GetIsolate (ev_Instance e))
                                then rInstance\<lparr>ri_OverriddenStatus := StatusOutOfService\<rparr>
                                else rInstance)
              in queue @ [rInstance'])
         | EventInstanceTurnHealth \<Rightarrow>
             queue @ [zeroTask\<lparr>ri_AppName := appName, ri_Id := ev_Id e,
                               ri_LastDirtyTimestamp := curTimeMilli, ri_Status := StatusUp,
                               ri_Action := actionStatusUpdate\<rparr>]
         | EventInstanceTurnUnHealth \<Rightarrow>
             queue @ [zeroTask\<lparr>ri_AppName := appName, ri_Id := ev_Id e,
                               ri_LastDirtyTimestamp := curTimeMilli, ri_Status := StatusDown,
                               ri_Action := actionStatusUpdate\<rparr>]
         | EventInstanceOpenIsolate \<Rightarrow>
             queue @ [zeroTask\<lparr>ri_AppName := appName, ri_Id := ev_Id e,
                               ri_LastDirtyTimestamp := curTimeMilli,
                               ri_OverriddenStatus := StatusOutOfService,
                               ri_Action := actionHeartbeat\<rparr>]
         | EventInstanceCloseIsolate \<Rightarrow>
             queue @ [zeroTask\<lparr>ri_AppName := appName, ri_Id := ev_Id e,
                               ri_LastDirtyTimestamp := curTimeMilli,
                               ri_Action := actionDeleteStatusOverride\<rparr>]
         | EventOther _ \<Rightarrow> queue))"


subsection \<open>The specification's tables\<close>

text \<open>
  The idempotency normalisation of the specification, by action and raw code, and the
  local operation it selects for a task, written from the specification's table and not
  from the code. \<open>spec_operation\<close> is \<open>None\<close> for an action outside the table.
\<close>

definition spec_normalize :: "string \<Rightarrow> code \<Rightarrow> code" where
  "spec_normalize action raw =
     (if action = actionRegister \<and> (raw = ExistedResource \<or> raw = SameInstanceRequest)
        then ExecuteSuccess
      else if action = actionHeartbeat \<and> raw = HeartbeatExceedLimit then ExecuteSuccess
      else if action = actionCancel \<and> (raw = NotFoundResource \<or> raw = SameInstanceRequest)
        then ExecuteSuccess
      else raw)"

definition spec_operation :: "string \<Rightarrow> string \<Rightarrow> 'i ReplicationInstance \<Rightarrow> 'i call option" where
  "spec_operation token appName task =
     (if ri_Action task = actionRegister
        then Some (RegisterInstances token appName (ri_InstanceInfo task) True)
      else if ri_Action task = actionHeartbeat
        then Some (Renew token appName (ri_Id task) True)
      else if ri_Action task = actionCancel
        then Some (DeregisterInstance token appName (ri_Id task) True)
      else if ri_Action task = actionStatusUpdate
        then Some (UpdateStatus token appName (ri_Id task) (ri_Status task) True)
      else if ri_Action task = actionDeleteStatusOverride
        then Some (UpdateStatus token appName (ri_Id task) StatusUp True)
      else None)"

subsection \<open>Notions for stating the properties\<close>

text \<open>A task whose snapshot, when it has one, went through \<^verbatim>\<open>convertInstancePorts\<close>.\<close>

definition portsConverted ::
  "('i, 'hc, 'loc) package \<Rightarrow> 'i ReplicationInstance \<Rightarrow> 'i ReplicationInstance" where
  "portsConverted pkg task =
     task\<lparr>ri_InstanceInfo := map_option (convertInstancePorts pkg) (ri_InstanceInfo task)\<rparr>"

text \<open>
  The world a run of the batch ends in, whether it panicked or not; for a batch of
  present tasks \<open>ts\<close>, the world in which the task at index \<open>i\<close> is dispatched (the one
  the first \<open>i\<close> tasks leave), what \<^verbatim>\<open>dispatch\<close> returns for it there, the codes of
  all tasks in request order, and the registry calls the batch amounts to.
\<close>

definition worldOf ::
  "panic \<times> ('i, 's) world + ReplicationListResponse \<times> code \<times> ('i, 's) world \<Rightarrow> ('i, 's) world" where
  "worldOf r = (case r of Inl (p, w) \<Rightarrow> w | Inr (resp, resultCode, w) \<Rightarrow> w)"

definition worldBefore ::
  "('i, 'hc, 'loc) package \<Rightarrow> ('i, 's) registry \<Rightarrow> string \<Rightarrow> 'i ReplicationInstance list \<Rightarrow>
   ('i, 's) world \<Rightarrow> nat \<Rightarrow> ('i, 's) world" where
  "worldBefore pkg h token ts w i =
     worldOf (doBatchReplicate pkg h (map Some (take i ts)) token w)"

definition perTask ::
  "('i, 'hc, 'loc) package \<Rightarrow> ('i, 's) registry \<Rightarrow> string \<Rightarrow> 'i ReplicationInstance list \<Rightarrow>
   ('i, 's) world \<Rightarrow> nat \<Rightarrow>
   ReplicationInstanceResponse \<times> code \<times> 'i ReplicationInstance \<times> ('i, 's) world" where
  "perTask pkg h token ts w i = dispatch pkg h (ts ! i) token (worldBefore pkg h token ts w i)"

definition perTaskCodes ::
  "('i, 'hc, 'loc) package \<Rightarrow> ('i, 's) registry \<Rightarrow> string \<Rightarrow> 'i ReplicationInstance list \<Rightarrow>
   ('i, 's) world \<Rightarrow> code list" where
  "perTaskCodes pkg h token ts w =
     map (\<lambda>i. fst (snd (perTask pkg h token ts w i))) [0..<length ts]"

definition operationsOf ::
  "('i, 'hc, 'loc) package \<Rightarrow> string \<Rightarrow> 'i ReplicationInstance list \<Rightarrow> 'i call list" where
  "operationsOf pkg token ts =
     concat (map (\<lambda>t. case spec_operation token (formatReadName pkg (ri_AppName t))
                              (portsConverted pkg t) of
                         None \<Rightarrow> [] | Some c \<Rightarrow> [c]) ts)"

text \<open>
  A device of the proofs: the loop on tasks that are all present, where nothing can
  panic. It is shown below to be what \<^verbatim>\<open>doBatchReplicate\<close> returns on a batch without
  a nil entry.
\<close>

fun presentLoop ::
  "('i, 'hc, 'loc) package \<Rightarrow> ('i, 's) registry \<Rightarrow> string \<Rightarrow> 'i ReplicationInstance list \<Rightarrow>
   ReplicationInstanceResponse list \<times> code \<times> ('i, 's) world \<Rightarrow>
   ReplicationInstanceResponse list \<times> code \<times> ('i, 's) world" where
  "presentLoop pkg h token [] acc = acc"
| "presentLoop pkg h token (t # rest) (responses, resultCode, w) =
     (case dispatch pkg h t token w of
        (resp, code, _, w') \<Rightarrow>
          presentLoop pkg h token rest
            (responses @ [resp], (if code \<noteq> ExecuteSuccess then code else resultCode), w'))"

definition presentBatch ::
  "('i, 'hc, 'loc) package \<Rightarrow> ('i, 's) registry \<Rightarrow> 'i ReplicationInstance list \<Rightarrow> string \<Rightarrow>
   ('i, 's) world \<Rightarrow> ReplicationListResponse \<times> code \<times> ('i, 's) world" where
  "presentBatch pkg h ts token w =
     (case presentLoop pkg h token ts ([], ExecuteSuccess, w) of
        (responses, resultCode, w') \<Rightarrow> (\<lparr>ResponseList = responses\<rparr>, resultCode, w'))"

subsection \<open>A small instance for concrete runs\<close>

text \<open>
  One choice of the parameters, to run the functions on concrete inputs: a snapshot with
  a decoded port and the port number derived from it, a port conversion that fills the
  number in, a lower-casing name format, and a registry that is the list of the
  registered instance ids. The second package has the assembled instance itself for a
  snapshot, so that a run shows every field handed to \<^verbatim>\<open>buildInstance\<close>.
\<close>

record ExampleInfo =
  ex_InstanceId :: string
  ex_Port :: "int option"
  ex_RealPort :: int

definition exampleConvertPorts :: "ExampleInfo \<Rightarrow> ExampleInfo" where
  "exampleConvertPorts info =
     (case ex_Port info of None \<Rightarrow> info | Some p \<Rightarrow> info\<lparr>ex_RealPort := p\<rparr>)"

definition exampleBuildInstance ::
  "string \<Rightarrow> (nat, nat) Instance \<Rightarrow> int \<Rightarrow> ExampleInfo option" where
  "exampleBuildInstance appName instance curTimeMilli =
     Some \<lparr>ex_InstanceId = GetString (pb_Id instance),
           ex_Port = Some (uint (GetUInt32 (pb_Port instance))),
           ex_RealPort = uint (GetUInt32 (pb_Port instance))\<rparr>"

definition exampleAuth :: "ExampleInfo Request \<Rightarrow> string option" where
  "exampleAuth req =
     (case rq_Header req ''Authorization'' of
        None \<Rightarrow> Some []
      | Some v \<Rightarrow> (if take 6 v = ''Basic '' then Some (drop 6 v) else None))"

definition toLower :: "string \<Rightarrow> string" where
  "toLower =
     map (\<lambda>c. case map_of (zip ''ABCDEFGHIJKLMNOPQRSTUVWXYZ'' ''abcdefghijklmnopqrstuvwxyz'') c of
                None \<Rightarrow> c | Some l \<Rightarrow> l)"

definition examplePackage :: "(ExampleInfo, nat, nat) package" where
  "examplePackage =
     \<lparr>MetadataReplicate = ''internal-eureka-replicate'',
      formatReadName = toLower,
      buildInstance = exampleBuildInstance,
      convertInstancePorts = exampleConvertPorts,
      getAuthFromEurekaRequestHeader = exampleAuth\<rparr>"

definition exampleRegistry :: "(ExampleInfo, string list) registry" where
  "exampleRegistry c s =
     (case c of
        RegisterInstances ctx appName info replicated \<Rightarrow>
          (case info of
             None \<Rightarrow> (ExecuteException, s)
           | Some i \<Rightarrow> (if ex_InstanceId i \<in> set s then (ExistedResource, s)
                       else (ExecuteSuccess, ex_InstanceId i # s)))
      | Renew ctx appName instanceId replicated \<Rightarrow>
          (if instanceId \<in> set s then (ExecuteSuccess, s) else (NotFoundResource, s))
      | DeregisterInstance ctx appName instanceId replicated \<Rightarrow>
          (if instanceId \<in> set s then (ExecuteSuccess, removeAll instanceId s)
           else (NotFoundResource, s))
      | UpdateStatus ctx appName instanceId status replicated \<Rightarrow>
          (if instanceId \<in> set s then (ExecuteSuccess, s) else (NotFoundResource, s)))"

definition exampleTask :: "string \<Rightarrow> string \<Rightarrow> ExampleInfo ReplicationInstance" where
  "exampleTask action instanceId =
     \<lparr>ri_AppName = ''SVCA'', ri_Id = instanceId, ri_LastDirtyTimestamp = 0,
      ri_OverriddenStatus = [], ri_Status = StatusDown,
      ri_InstanceInfo =
        Some \<lparr>ex_InstanceId = instanceId, ex_Port = Some 8080, ex_RealPort = 0\<rparr>,
      ri_Action = action\<rparr>"

definition exampleRequest ::
  "string \<Rightarrow> string \<Rightarrow> ExampleInfo ReplicationInstance list option \<Rightarrow> ExampleInfo Request" where
  "exampleRequest identity authorization entity =
     \<lparr>rq_Header = [headerIdentityName \<mapsto> identity, ''Authorization'' \<mapsto> authorization],
      rq_Entity = map_option (map Some) entity\<rparr>"

definition nullEntryRequest :: "ExampleInfo Request" where
  "nullEntryRequest =
     \<lparr>rq_Header = [headerIdentityName \<mapsto> ''peer'', ''Authorization'' \<mapsto> ''Basic tok''],
      rq_Entity = Some [Some (exampleTask actionRegister ''i1''), None]\<rparr>"

definition transparentPackage :: "((nat, nat) Instance, nat, nat) package" where
  "transparentPackage =
     \<lparr>MetadataReplicate = ''internal-eureka-replicate'',
      formatReadName = toLower,
      buildInstance = (\<lambda>appName instance curTimeMilli. Some instance),
      convertInstancePorts = (\<lambda>info. info),
      getAuthFromEurekaRequestHeader = (\<lambda>req. None)\<rparr>"

definition exampleEvent ::
  "InstanceEventType \<Rightarrow> bool \<Rightarrow> bool \<Rightarrow> (string \<rightharpoonup> string) \<Rightarrow> (nat, nat) InstanceEvent" where
  "exampleEvent kind healthy isolate metadata =
     \<lparr>ev_Id = ''i1'', ev_Namespace = ''default'', ev_Service = ''SvcA'',
      ev_Instance =
        Some \<lparr>pb_Id = Some ''i1'', pb_Host = Some ''10.0.0.1'', pb_Port = Some 8080,
              pb_Protocol = Some ''http'', pb_Version = None, pb_Priority = Some 1,
              pb_Weight = Some 100, pb_EnableHealthCheck = Some True, pb_HealthCheck = Some 5,
              pb_Healthy = Some healthy, pb_Isolate = Some isolate, pb_Location = Some 7,
              pb_Metadata = [''zone'' \<mapsto> ''a'']\<rparr>,
      ev_EType = kind, ev_MetaData = metadata\<rparr>"

definition exampleBatch :: "ExampleInfo ReplicationInstance list" where
  "exampleBatch =
     [exampleTask actionRegister ''i1'', exampleTask actionStatusUpdate ''i2'',
      exampleTask actionHeartbeat ''i1'']"

section \<open>The dispatcher\<close>

lemmas action_defs =
  actionRegister_def actionHeartbeat_def actionCancel_def actionStatusUpdate_def
  actionDeleteStatusOverride_def

lemmas example_defs =
  examplePackage_def exampleRegistry_def exampleTask_def exampleConvertPorts_def
  exampleBuildInstance_def exampleAuth_def exampleRequest_def exampleEvent_def toLower_def

lemmas getter_defs =
  GetString_def GetUInt32_def GetHost_def GetPort_def GetProtocol_def GetVersion_def
  GetPriority_def GetWeight_def GetEnableHealthCheck_def GetHealthCheck_def GetHealthy_def
  GetIsolate_def GetLocation_def GetMetadata_def

lemma dispatch_unknown:
  assumes "spec_operation token (formatReadName pkg (ri_AppName t)) (portsConverted pkg t) = None"
  shows "dispatch pkg h t token w =
           (\<lparr>StatusCode = StatusOK\<rparr>, ExecuteSuccess, portsConverted pkg t, w)"
  using assms
  by (cases "ri_InstanceInfo t")
     (simp_all add: dispatch_def portsConverted_def spec_operation_def Let_def split: if_splits)

lemma dispatch_known:
  assumes "spec_operation token (formatReadName pkg (ri_AppName t)) (portsConverted pkg t) = Some c"
  shows "dispatch pkg h t token w =
           (let raw = fst (h c (fst w));
                retCode = spec_normalize (ri_Action t) raw
            in (\<lparr>StatusCode = (if retCode = NotFoundResource then StatusNotFound else StatusOK)\<rparr>,
                retCode, portsConverted pkg t, (snd (h c (fst w)), snd w @ [c])))"
  using assms
  by (cases "ri_InstanceInfo t")
     (auto simp add: dispatch_def portsConverted_def spec_operation_def spec_normalize_def
        invoke_def Let_def action_defs split: if_splits prod.splits)

lemma dispatch_world:
  "snd (snd (snd (dispatch pkg h t token w))) =
     (case spec_operation token (formatReadName pkg (ri_AppName t)) (portsConverted pkg t) of
        None \<Rightarrow> w
      | Some c \<Rightarrow> (snd (h c (fst w)), snd w @ [c]))"
  by (cases "spec_operation token (formatReadName pkg (ri_AppName t)) (portsConverted pkg t)")
     (simp_all add: dispatch_unknown dispatch_known Let_def)

lemma spec_operation_None:
  "spec_operation token appName t = None \<longleftrightarrow>
     ri_Action t \<notin> {actionRegister, actionHeartbeat, actionCancel, actionStatusUpdate,
                     actionDeleteStatusOverride}"
  by (simp add: spec_operation_def)

text \<open>
  C1. Whenever the action of an inbound task selects a local operation (Register:
  registerInstances with the app name and the snapshot, Heartbeat: renew, Cancel:
  deregisterInstance, StatusUpdate: updateStatus with the task's status,
  DeleteStatusOverride: updateStatus with status Up), \<^verbatim>\<open>dispatch\<close> invokes exactly
  that operation, once, in the current registry state, and the code it returns for the
  task is the operation's code after the normalisation keyed by the action: it is made
  ExecuteSuccess for ExistedResource or SameInstanceRequest under Register, for
  HeartbeatExceedLimit under Heartbeat, for NotFoundResource or SameInstanceRequest under
  Cancel, and is the raw code in every other case, so always under StatusUpdate and
  DeleteStatusOverride.
\<close>

theorem dispatch_normalized_code:
  assumes "spec_operation token (formatReadName pkg (ri_AppName t)) (portsConverted pkg t) = Some c"
  shows "fst (snd (dispatch pkg h t token w)) = spec_normalize (ri_Action t) (fst (h c (fst w)))
         \<and> snd (snd (snd (dispatch pkg h t token w))) = (snd (h c (fst w)), snd w @ [c])
         \<and> (ri_Action t = actionRegister \<longrightarrow>
              c = RegisterInstances token (formatReadName pkg (ri_AppName t))
                    (map_option (convertInstancePorts pkg) (ri_InstanceInfo t)) True
              \<and> spec_normalize (ri_Action t) ExistedResource = ExecuteSuccess
              \<and> spec_normalize (ri_Action t) SameInstanceRequest = ExecuteSuccess)
         \<and> (ri_Action t = actionHeartbeat \<longrightarrow>
              c = Renew token (formatReadName pkg (ri_AppName t)) (ri_Id t) True
              \<and> spec_normalize (ri_Action t) HeartbeatExceedLimit = ExecuteSuccess)
         \<and> (ri_Action t = actionCancel \<longrightarrow>
              c = DeregisterInstance token (formatReadName pkg (ri_AppName t)) (ri_Id t) True
              \<and> spec_normalize (ri_Action t) NotFoundResource = ExecuteSuccess
              \<and> spec_normalize (ri_Action t) SameInstanceRequest = ExecuteSuccess)
         \<and> (ri_Action t = actionStatusUpdate \<longrightarrow>
              c = UpdateStatus token (formatReadName pkg (ri_AppName t)) (ri_Id t) (ri_Status t) True
              \<and> (\<forall>raw. spec_normalize (ri_Action t) raw = raw))
         \<and> (ri_Action t = actionDeleteStatusOverride \<longrightarrow>
              c = UpdateStatus token (formatReadName pkg (ri_AppName t)) (ri_Id t) StatusUp True
              \<and> (\<forall>raw. spec_normalize (ri_Action t) raw = raw))"
proof -
  have code: "fst (snd (dispatch pkg h t token w)) =
                spec_normalize (ri_Action t) (fst (h c (fst w)))"
    by (simp add: dispatch_known [OF assms] Let_def)
  have world: "snd (snd (snd (dispatch pkg h t token w))) = (snd (h c (fst w)), snd w @ [c])"
    by (simp add: dispatch_known [OF assms] Let_def)
  have ops: "(ri_Action t = actionRegister \<longrightarrow>
                c = RegisterInstances token (formatReadName pkg (ri_AppName t))
                      (map_option (convertInstancePorts pkg) (ri_InstanceInfo t)) True)
           \<and> (ri_Action t = actionHeartbeat \<longrightarrow>
                c = Renew token (formatReadName pkg (ri_AppName t)) (ri_Id t) True)
           \<and> (ri_Action t = actionCancel \<longrightarrow>
                c = DeregisterInstance token (formatReadName pkg (ri_AppName t)) (ri_Id t) True)
           \<and> (ri_Action t = actionStatusUpdate \<longrightarrow>
                c = UpdateStatus token (formatReadName pkg (ri_AppName t)) (ri_Id t)
                      (ri_Status t) True)
           \<and> (ri_Action t = actionDeleteStatusOverride \<longrightarrow>
                c = UpdateStatus token (formatReadName pkg (ri_AppName t)) (ri_Id t) StatusUp True)"
    using assms by (auto simp add: spec_operation_def portsConverted_def action_defs)
  have norm: "(ri_Action t = actionRegister \<longrightarrow>
                 spec_normalize (ri_Action t) ExistedResource = ExecuteSuccess
                 \<and> spec_normalize (ri_Action t) SameInstanceRequest = ExecuteSuccess)
            \<and> (ri_Action t = actionHeartbeat \<longrightarrow>
                 spec_normalize (ri_Action t) HeartbeatExceedLimit = ExecuteSuccess)
            \<and> (ri_Action t = actionCancel \<longrightarrow>
                 spec_normalize (ri_Action t) NotFoundResource = ExecuteSuccess
                 \<and> spec_normalize (ri_Action t) SameInstanceRequest = ExecuteSuccess)
            \<and> (ri_Action t = actionStatusUpdate \<longrightarrow>
                 (\<forall>raw. spec_normalize (ri_Action t) raw = raw))
            \<and> (ri_Action t = actionDeleteStatusOverride \<longrightarrow>
                 (\<forall>raw. spec_normalize (ri_Action t) raw = raw))"
    by (simp add: spec_normalize_def action_defs)
  from code world ops norm show ?thesis by blast
qed

theorem dispatch_normalized_code_witness:
  "spec_operation ''tok'' (formatReadName examplePackage (ri_AppName (exampleTask actionRegister ''i1'')))
      (portsConverted examplePackage (exampleTask actionRegister ''i1'')) =
     Some (RegisterInstances ''tok'' ''svca''
             (Some \<lparr>ex_InstanceId = ''i1'', ex_Port = Some 8080, ex_RealPort = 8080\<rparr>) True)
   \<and> fst (exampleRegistry
            (RegisterInstances ''tok'' ''svca''
               (Some \<lparr>ex_InstanceId = ''i1'', ex_Port = Some 8080, ex_RealPort = 8080\<rparr>) True)
            [''i1'']) = ExistedResource
   \<and> fst (snd (dispatch examplePackage exampleRegistry (exampleTask actionRegister ''i1'') ''tok''
                 ([''i1''], []))) = ExecuteSuccess"
proof -
  have op: "spec_operation ''tok''
              (formatReadName examplePackage (ri_AppName (exampleTask actionRegister ''i1'')))
              (portsConverted examplePackage (exampleTask actionRegister ''i1'')) =
            Some (RegisterInstances ''tok'' ''svca''
                    (Some \<lparr>ex_InstanceId = ''i1'', ex_Port = Some 8080, ex_RealPort = 8080\<rparr>) True)"
    by (simp add: spec_operation_def portsConverted_def example_defs action_defs)
  have raw: "fst (exampleRegistry
                    (RegisterInstances ''tok'' ''svca''
                       (Some \<lparr>ex_InstanceId = ''i1'', ex_Port = Some 8080, ex_RealPort = 8080\<rparr>) True)
                    [''i1'']) = ExistedResource"
    by (simp add: exampleRegistry_def)
  from dispatch_normalized_code [OF op, of exampleRegistry "([''i1''], [])"] raw
  have "fst (snd (dispatch examplePackage exampleRegistry (exampleTask actionRegister ''i1'') ''tok''
                    ([''i1''], []))) = ExecuteSuccess"
    by (simp add: spec_normalize_def exampleTask_def)
  with op raw show ?thesis by blast
qed

text \<open>
  C10. A task whose action is none of the five action names makes \<^verbatim>\<open>dispatch\<close>
  invoke no registry operation (the registry state and the list of calls are the ones it
  started with) and return the outcome ExecuteSuccess with status 200; a batch holding
  only such a task therefore has the aggregate ExecuteSuccess. The empty action string is
  such an action.
\<close>

theorem dispatch_unknown_action:
  assumes "ri_Action t \<notin> {actionRegister, actionHeartbeat, actionCancel, actionStatusUpdate,
                           actionDeleteStatusOverride}"
  shows "dispatch pkg h t token w =
           (\<lparr>StatusCode = 200\<rparr>, ExecuteSuccess, portsConverted pkg t, w)
         \<and> doBatchReplicate pkg h [Some t] token w =
             Inr (\<lparr>ResponseList = [\<lparr>StatusCode = 200\<rparr>]\<rparr>, ExecuteSuccess, w)"
proof -
  from assms
  have "spec_operation token (formatReadName pkg (ri_AppName t)) (portsConverted pkg t) = None"
    by (simp add: spec_operation_None portsConverted_def)
  then have d: "dispatch pkg h t token w =
                  (\<lparr>StatusCode = 200\<rparr>, ExecuteSuccess, portsConverted pkg t, w)"
    by (simp add: dispatch_unknown StatusOK_def)
  then show ?thesis by (simp add: doBatchReplicate_def)
qed

theorem dispatch_unknown_action_witness:
  "ri_Action (exampleTask [] ''i1'') \<notin>
     {actionRegister, actionHeartbeat, actionCancel, actionStatusUpdate, actionDeleteStatusOverride}
   \<and> dispatch examplePackage exampleRegistry (exampleTask [] ''i1'') ''tok'' ([], []) =
       (\<lparr>StatusCode = 200\<rparr>, ExecuteSuccess,
        portsConverted examplePackage (exampleTask [] ''i1''), ([], []))
   \<and> doBatchReplicate examplePackage exampleRegistry [Some (exampleTask [] ''i1'')] ''tok''
       ([], []) =
       Inr (\<lparr>ResponseList = [\<lparr>StatusCode = 200\<rparr>]\<rparr>, ExecuteSuccess, ([], []))"
proof -
  have a: "ri_Action (exampleTask [] ''i1'') \<notin>
             {actionRegister, actionHeartbeat, actionCancel, actionStatusUpdate,
              actionDeleteStatusOverride}"
    by (simp add: exampleTask_def action_defs)
  from dispatch_unknown_action [OF a, of examplePackage exampleRegistry "''tok''" "([], [])"] a
  show ?thesis by blast
qed

section \<open>The batch\<close>

lemma presentLoop_append:
  "presentLoop pkg h token (xs @ ys) acc =
     presentLoop pkg h token ys (presentLoop pkg h token xs acc)"
proof (induction xs arbitrary: acc)
  case Nil
  show ?case by simp
next
  case (Cons x xs)
  obtain rs c w where acc: "acc = (rs, c, w)" by (cases acc) auto
  show ?case by (simp add: acc Cons.IH split: prod.splits)
qed

lemma doBatchLoop_present:
  "doBatchLoop pkg h token (map Some ts) acc = Inr (presentLoop pkg h token ts acc)"
proof (induction ts arbitrary: acc)
  case Nil
  show ?case by simp
next
  case (Cons t ts)
  obtain rs c w where acc: "acc = (rs, c, w)" by (cases acc) auto
  show ?case by (simp add: acc Cons.IH split: prod.splits)
qed

lemma doBatchReplicate_present:
  "doBatchReplicate pkg h (map Some ts) token w = Inr (presentBatch pkg h ts token w)"
  by (simp add: doBatchReplicate_def presentBatch_def doBatchLoop_present split: prod.splits)

lemma worldBefore_present:
  "worldBefore pkg h token ts w i = snd (snd (presentBatch pkg h (take i ts) token w))"
  by (simp add: worldBefore_def worldOf_def doBatchReplicate_present case_prod_beta)

lemma presentBatch_Nil:
  "presentBatch pkg h [] token w = (\<lparr>ResponseList = []\<rparr>, ExecuteSuccess, w)"
  by (simp add: presentBatch_def)

lemma presentBatch_snoc:
  "presentBatch pkg h (xs @ [x]) token w =
     (case presentBatch pkg h xs token w of
        (resp, resultCode, w1) \<Rightarrow>
          (case dispatch pkg h x token w1 of
             (r, code, _, w2) \<Rightarrow>
               (\<lparr>ResponseList = ResponseList resp @ [r]\<rparr>,
                (if code \<noteq> ExecuteSuccess then code else resultCode), w2)))"
  by (simp add: presentBatch_def presentLoop_append split: prod.splits)

lemma presentBatch_snoc_responses:
  "ResponseList (fst (presentBatch pkg h (xs @ [x]) token w)) =
     ResponseList (fst (presentBatch pkg h xs token w)) @
       [fst (dispatch pkg h x token (snd (snd (presentBatch pkg h xs token w))))]"
  by (simp add: presentBatch_snoc case_prod_beta)

lemma presentBatch_snoc_code:
  "fst (snd (presentBatch pkg h (xs @ [x]) token w)) =
     (if fst (snd (dispatch pkg h x token (snd (snd (presentBatch pkg h xs token w))))) \<noteq>
         ExecuteSuccess
      then fst (snd (dispatch pkg h x token (snd (snd (presentBatch pkg h xs token w)))))
      else fst (snd (presentBatch pkg h xs token w)))"
  by (simp add: presentBatch_snoc case_prod_beta)

lemma presentBatch_snoc_world:
  "snd (snd (presentBatch pkg h (xs @ [x]) token w)) =
     snd (snd (snd (dispatch pkg h x token (snd (snd (presentBatch pkg h xs token w))))))"
  by (simp add: presentBatch_snoc case_prod_beta)

lemma perTask_snoc_old:
  "i < length xs \<Longrightarrow> perTask pkg h token (xs @ [x]) w i = perTask pkg h token xs w i"
  by (simp add: perTask_def worldBefore_present nth_append)

lemma perTask_snoc_new:
  "perTask pkg h token (xs @ [x]) w (length xs) =
     dispatch pkg h x token (snd (snd (presentBatch pkg h xs token w)))"
  by (simp add: perTask_def worldBefore_present)

lemma perTaskCodes_snoc:
  "perTaskCodes pkg h token (xs @ [x]) w =
     perTaskCodes pkg h token xs w @
       [fst (snd (dispatch pkg h x token (snd (snd (presentBatch pkg h xs token w)))))]"
  by (simp add: perTaskCodes_def perTask_snoc_old perTask_snoc_new)

lemma presentBatch_length:
  "length (ResponseList (fst (presentBatch pkg h ts token w))) = length ts"
  by (induction ts rule: rev_induct)
     (simp_all add: presentBatch_Nil presentBatch_snoc_responses)

lemma presentBatch_nth:
  "i < length ts \<Longrightarrow>
   ResponseList (fst (presentBatch pkg h ts token w)) ! i = fst (perTask pkg h token ts w i)"
proof (induction ts arbitrary: i rule: rev_induct)
  case Nil
  then show ?case by simp
next
  case (snoc x xs)
  show ?case
  proof (cases "i < length xs")
    case True
    with snoc.IH [of i] show ?thesis
      by (simp add: presentBatch_snoc_responses presentBatch_length perTask_snoc_old
            nth_append)
  next
    case False
    with snoc.prems have i: "i = length xs" by simp
    show ?thesis
      by (simp add: i presentBatch_snoc_responses presentBatch_length perTask_snoc_new
            nth_append)
  qed
qed

lemma presentBatch_code:
  "fst (snd (presentBatch pkg h ts token w)) =
     foldl (\<lambda>resultCode code. if code \<noteq> ExecuteSuccess then code else resultCode)
       ExecuteSuccess (perTaskCodes pkg h token ts w)"
proof (induction ts rule: rev_induct)
  case Nil
  show ?case by (simp add: presentBatch_Nil perTaskCodes_def)
next
  case (snoc x xs)
  then show ?case
    by (simp add: presentBatch_snoc_code perTaskCodes_snoc)
qed

lemma overwrite_last:
  "foldl (\<lambda>resultCode code. if code \<noteq> ExecuteSuccess then code else resultCode) c0 cs =
     (if filter (\<lambda>c. c \<noteq> ExecuteSuccess) cs = [] then c0
      else last (filter (\<lambda>c. c \<noteq> ExecuteSuccess) cs))"
  by (induction cs rule: rev_induct) simp_all

lemma last_failure_fails:
  "filter (\<lambda>c. c \<noteq> ExecuteSuccess) cs \<noteq> [] \<Longrightarrow>
   last (filter (\<lambda>c. c \<noteq> ExecuteSuccess) cs) \<noteq> ExecuteSuccess"
proof -
  assume ne: "filter (\<lambda>c. c \<noteq> ExecuteSuccess) cs \<noteq> []"
  then have "last (filter (\<lambda>c. c \<noteq> ExecuteSuccess) cs) \<in>
               set (filter (\<lambda>c. c \<noteq> ExecuteSuccess) cs)"
    by (rule last_in_set)
  then show ?thesis by simp
qed

lemma presentBatch_success_iff:
  "fst (snd (presentBatch pkg h ts token w)) = ExecuteSuccess \<longleftrightarrow>
     (\<forall>i<length ts. fst (snd (perTask pkg h token ts w i)) = ExecuteSuccess)"
proof -
  let ?cs = "perTaskCodes pkg h token ts w"
  have "fst (snd (presentBatch pkg h ts token w)) = ExecuteSuccess \<longleftrightarrow>
          filter (\<lambda>c. c \<noteq> ExecuteSuccess) ?cs = []"
    using last_failure_fails [of ?cs]
    by (simp add: presentBatch_code overwrite_last)
  also have "\<dots> \<longleftrightarrow> (\<forall>c\<in>set ?cs. c = ExecuteSuccess)"
    by (simp add: filter_empty_conv)
  also have "\<dots> \<longleftrightarrow> (\<forall>i<length ts. fst (snd (perTask pkg h token ts w i)) = ExecuteSuccess)"
    by (auto simp add: perTaskCodes_def)
  finally show ?thesis .
qed

lemma presentBatch_last_failure:
  "fst (snd (presentBatch pkg h ts token w)) \<noteq> ExecuteSuccess \<Longrightarrow>
   fst (snd (presentBatch pkg h ts token w)) =
     last (filter (\<lambda>c. c \<noteq> ExecuteSuccess) (perTaskCodes pkg h token ts w))"
  by (simp add: presentBatch_code overwrite_last split: if_splits)

lemma presentBatch_calls:
  "snd (snd (snd (presentBatch pkg h ts token w))) = snd w @ operationsOf pkg token ts"
proof (induction ts rule: rev_induct)
  case Nil
  show ?case by (simp add: presentBatch_Nil operationsOf_def)
next
  case (snoc x xs)
  then show ?case
    by (simp add: presentBatch_snoc_world dispatch_world operationsOf_def
          split: option.splits)
qed

lemma BatchReplication_accepted:
  assumes "HeaderParameter req headerIdentityName \<noteq> valueIdentityName"
    and "rq_Entity req = Some (map Some ts)"
    and "getAuthFromEurekaRequestHeader pkg req = Some token"
  shows "BatchReplication pkg h req w =
           ([WriteEurekaResponseWithCode (fst (presentBatch pkg h ts token w))
               (fst (snd (presentBatch pkg h ts token w)))],
            snd (snd (presentBatch pkg h ts token w)))"
  using assms by (simp add: BatchReplication_def doBatchReplicate_present case_prod_beta)

text \<open>
  C2 (as amended). A request that passes the boundary checks (a source identity other
  than this node's, a body that decodes, a credential that yields a token) and whose
  decoded list has no nil entry, so is the list of the tasks \<open>ts\<close>, makes
  \<^verbatim>\<open>doBatchReplicate\<close> return, and is answered with the response and the aggregate code
  it returns. The response list is as long as the request list; its entry at index \<open>i\<close>
  is the response of dispatching task \<open>i\<close> in the world the tasks before it left; the
  aggregate is ExecuteSuccess exactly when the code of every task is, and is otherwise the
  last code in request order that is not ExecuteSuccess. No task is skipped after a
  failure: the registry has received, in order, the call of every task whose action
  selects one.
\<close>

theorem BatchReplication_aggregate:
  assumes "HeaderParameter req headerIdentityName \<noteq> valueIdentityName"
    and "rq_Entity req = Some (map Some ts)"
    and "getAuthFromEurekaRequestHeader pkg req = Some token"
  shows "\<exists>resp resultCode w'.
           doBatchReplicate pkg h (map Some ts) token w = Inr (resp, resultCode, w')
           \<and> BatchReplication pkg h req w = ([WriteEurekaResponseWithCode resp resultCode], w')
           \<and> length (ResponseList resp) = length ts
           \<and> (\<forall>i<length ts. ResponseList resp ! i = fst (perTask pkg h token ts w i))
           \<and> (resultCode = ExecuteSuccess \<longleftrightarrow>
                (\<forall>i<length ts. fst (snd (perTask pkg h token ts w i)) = ExecuteSuccess))
           \<and> (resultCode \<noteq> ExecuteSuccess \<longrightarrow>
                resultCode =
                  last (filter (\<lambda>c. c \<noteq> ExecuteSuccess) (perTaskCodes pkg h token ts w)))
           \<and> snd w' = snd w @ operationsOf pkg token ts"
proof (intro exI conjI)
  let ?R = "presentBatch pkg h ts token w"
  show "doBatchReplicate pkg h (map Some ts) token w = Inr (fst ?R, fst (snd ?R), snd (snd ?R))"
    by (simp add: doBatchReplicate_present)
  show "BatchReplication pkg h req w =
          ([WriteEurekaResponseWithCode (fst ?R) (fst (snd ?R))], snd (snd ?R))"
    by (rule BatchReplication_accepted [OF assms])
  show "length (ResponseList (fst ?R)) = length ts"
    by (rule presentBatch_length)
  show "\<forall>i<length ts. ResponseList (fst ?R) ! i = fst (perTask pkg h token ts w i)"
    by (simp add: presentBatch_nth)
  show "fst (snd ?R) = ExecuteSuccess \<longleftrightarrow>
          (\<forall>i<length ts. fst (snd (perTask pkg h token ts w i)) = ExecuteSuccess)"
    by (rule presentBatch_success_iff)
  show "fst (snd ?R) \<noteq> ExecuteSuccess \<longrightarrow>
          fst (snd ?R) =
            last (filter (\<lambda>c. c \<noteq> ExecuteSuccess) (perTaskCodes pkg h token ts w))"
    using presentBatch_last_failure [of pkg h ts token w] by blast
  show "snd (snd (snd ?R)) = snd w @ operationsOf pkg token ts"
    by (rule presentBatch_calls)
qed

lemma exampleBatch_run:
  "doBatchReplicate examplePackage exampleRegistry (map Some exampleBatch) ''tok'' ([], []) =
     Inr (\<lparr>ResponseList = [\<lparr>StatusCode = 200\<rparr>, \<lparr>StatusCode = 404\<rparr>, \<lparr>StatusCode = 200\<rparr>]\<rparr>,
          NotFoundResource,
          ([''i1''],
           [RegisterInstances ''tok'' ''svca''
              (Some \<lparr>ex_InstanceId = ''i1'', ex_Port = Some 8080, ex_RealPort = 8080\<rparr>) True,
            UpdateStatus ''tok'' ''svca'' ''i2'' ''DOWN'' True,
            Renew ''tok'' ''svca'' ''i1'' True]))"
  by (simp add: doBatchReplicate_def dispatch_def invoke_def exampleBatch_def example_defs
        action_defs StatusOK_def StatusNotFound_def StatusDown_def Let_def)

theorem BatchReplication_aggregate_witness:
  "HeaderParameter (exampleRequest ''peer'' ''Basic tok'' (Some exampleBatch)) headerIdentityName \<noteq>
     valueIdentityName
   \<and> rq_Entity (exampleRequest ''peer'' ''Basic tok'' (Some exampleBatch)) =
       Some (map Some exampleBatch)
   \<and> getAuthFromEurekaRequestHeader examplePackage
       (exampleRequest ''peer'' ''Basic tok'' (Some exampleBatch)) = Some ''tok''
   \<and> (1::nat) < length exampleBatch
   \<and> BatchReplication examplePackage exampleRegistry
       (exampleRequest ''peer'' ''Basic tok'' (Some exampleBatch)) ([], []) =
       ([WriteEurekaResponseWithCode
           \<lparr>ResponseList = [\<lparr>StatusCode = 200\<rparr>, \<lparr>StatusCode = 404\<rparr>, \<lparr>StatusCode = 200\<rparr>]\<rparr>
           NotFoundResource],
        ([''i1''],
         [RegisterInstances ''tok'' ''svca''
            (Some \<lparr>ex_InstanceId = ''i1'', ex_Port = Some 8080, ex_RealPort = 8080\<rparr>) True,
          UpdateStatus ''tok'' ''svca'' ''i2'' ''DOWN'' True,
          Renew ''tok'' ''svca'' ''i1'' True]))
   \<and> fst (perTask examplePackage exampleRegistry ''tok'' exampleBatch ([], []) 1) =
       \<lparr>StatusCode = 404\<rparr>
   \<and> last (filter (\<lambda>c. c \<noteq> ExecuteSuccess)
             (perTaskCodes examplePackage exampleRegistry ''tok'' exampleBatch ([], []))) =
       NotFoundResource
   \<and> operationsOf examplePackage ''tok'' exampleBatch =
       [RegisterInstances ''tok'' ''svca''
          (Some \<lparr>ex_InstanceId = ''i1'', ex_Port = Some 8080, ex_RealPort = 8080\<rparr>) True,
        UpdateStatus ''tok'' ''svca'' ''i2'' ''DOWN'' True,
        Renew ''tok'' ''svca'' ''i1'' True]"
proof -
  let ?req = "exampleRequest ''peer'' ''Basic tok'' (Some exampleBatch)"
  have g1: "HeaderParameter ?req headerIdentityName \<noteq> valueIdentityName"
    by (simp add: HeaderParameter_def exampleRequest_def headerIdentityName_def
          valueIdentityName_def)
  have g2: "rq_Entity ?req = Some (map Some exampleBatch)"
    by (simp add: exampleRequest_def)
  have g3: "getAuthFromEurekaRequestHeader examplePackage ?req = Some ''tok''"
    by (simp add: examplePackage_def exampleAuth_def exampleRequest_def headerIdentityName_def)
  have len: "(1::nat) < length exampleBatch"
    by (simp add: exampleBatch_def)
  from BatchReplication_aggregate [OF g1 g2 g3, of exampleRegistry "([], [])"]
  obtain resp resultCode w' where
    run: "doBatchReplicate examplePackage exampleRegistry (map Some exampleBatch) ''tok''
            ([], []) = Inr (resp, resultCode, w')"
    and written: "BatchReplication examplePackage exampleRegistry ?req ([], []) =
                    ([WriteEurekaResponseWithCode resp resultCode], w')"
    and nth: "\<forall>i<length exampleBatch.
                ResponseList resp ! i =
                  fst (perTask examplePackage exampleRegistry ''tok'' exampleBatch ([], []) i)"
    and lastf: "resultCode \<noteq> ExecuteSuccess \<longrightarrow>
                  resultCode =
                    last (filter (\<lambda>c. c \<noteq> ExecuteSuccess)
                            (perTaskCodes examplePackage exampleRegistry ''tok'' exampleBatch
                               ([], [])))"
    and calls: "snd w' = snd ([]::string list, []::ExampleInfo call list) @
                  operationsOf examplePackage ''tok'' exampleBatch"
    by blast
  from run have resp: "resp = \<lparr>ResponseList = [\<lparr>StatusCode = 200\<rparr>, \<lparr>StatusCode = 404\<rparr>,
                                                \<lparr>StatusCode = 200\<rparr>]\<rparr>"
    and code: "resultCode = NotFoundResource"
    and world: "w' = ([''i1''],
                      [RegisterInstances ''tok'' ''svca''
                         (Some \<lparr>ex_InstanceId = ''i1'', ex_Port = Some 8080,
                                 ex_RealPort = 8080\<rparr>) True,
                       UpdateStatus ''tok'' ''svca'' ''i2'' ''DOWN'' True,
                       Renew ''tok'' ''svca'' ''i1'' True])"
    by (simp_all add: exampleBatch_run)
  from written resp code world
  have a: "BatchReplication examplePackage exampleRegistry ?req ([], []) =
             ([WriteEurekaResponseWithCode
                 \<lparr>ResponseList = [\<lparr>StatusCode = 200\<rparr>, \<lparr>StatusCode = 404\<rparr>, \<lparr>StatusCode = 200\<rparr>]\<rparr>
                 NotFoundResource],
              ([''i1''],
               [RegisterInstances ''tok'' ''svca''
                  (Some \<lparr>ex_InstanceId = ''i1'', ex_Port = Some 8080, ex_RealPort = 8080\<rparr>) True,
                UpdateStatus ''tok'' ''svca'' ''i2'' ''DOWN'' True,
                Renew ''tok'' ''svca'' ''i1'' True]))"
    by simp
  from nth len resp
  have b: "fst (perTask examplePackage exampleRegistry ''tok'' exampleBatch ([], []) 1) =
             \<lparr>StatusCode = 404\<rparr>"
    by auto
  from lastf code
  have c: "last (filter (\<lambda>c. c \<noteq> ExecuteSuccess)
                   (perTaskCodes examplePackage exampleRegistry ''tok'' exampleBatch ([], []))) =
             NotFoundResource"
    by simp
  from calls world
  have d: "operationsOf examplePackage ''tok'' exampleBatch =
             [RegisterInstances ''tok'' ''svca''
                (Some \<lparr>ex_InstanceId = ''i1'', ex_Port = Some 8080, ex_RealPort = 8080\<rparr>) True,
              UpdateStatus ''tok'' ''svca'' ''i2'' ''DOWN'' True,
              Renew ''tok'' ''svca'' ''i1'' True]"
    by simp
  from g1 g2 g3 len a b c d show ?thesis by blast
qed

text \<open>
  The claim as stated fails on a batch with a nil entry. The request below passes all
  three boundary checks and its body decodes to two entries, a Register task and a JSON
  null. The Register task is applied; then \<^verbatim>\<open>dispatch\<close> dereferences the nil pointer
  and the handler panics: it writes no response list at all, let alone one of length two.
\<close>

theorem BatchReplication_aggregate_counterexample:
  "HeaderParameter nullEntryRequest headerIdentityName \<noteq> valueIdentityName
   \<and> rq_Entity nullEntryRequest = Some [Some (exampleTask actionRegister ''i1''), None]
   \<and> getAuthFromEurekaRequestHeader examplePackage nullEntryRequest = Some ''tok''
   \<and> BatchReplication examplePackage exampleRegistry nullEntryRequest ([], []) =
       ([Panics NilPointerDereference],
        ([''i1''],
         [RegisterInstances ''tok'' ''svca''
            (Some \<lparr>ex_InstanceId = ''i1'', ex_Port = Some 8080, ex_RealPort = 8080\<rparr>) True]))
   \<and> \<not> (\<exists>resp resultCode.
           WriteEurekaResponseWithCode resp resultCode \<in>
             set (fst (BatchReplication examplePackage exampleRegistry nullEntryRequest ([], []))))"
proof -
  have g1: "HeaderParameter nullEntryRequest headerIdentityName \<noteq> valueIdentityName"
    by (simp add: HeaderParameter_def nullEntryRequest_def headerIdentityName_def
          valueIdentityName_def)
  have g2: "rq_Entity nullEntryRequest = Some [Some (exampleTask actionRegister ''i1''), None]"
    by (simp add: nullEntryRequest_def)
  have g3: "getAuthFromEurekaRequestHeader examplePackage nullEntryRequest = Some ''tok''"
    by (simp add: examplePackage_def exampleAuth_def nullEntryRequest_def headerIdentityName_def)
  have run: "doBatchReplicate examplePackage exampleRegistry
               [Some (exampleTask actionRegister ''i1''), None] ''tok'' ([], []) =
             Inl (NilPointerDereference,
                  ([''i1''],
                   [RegisterInstances ''tok'' ''svca''
                      (Some \<lparr>ex_InstanceId = ''i1'', ex_Port = Some 8080,
                              ex_RealPort = 8080\<rparr>) True]))"
    by (simp add: doBatchReplicate_def dispatch_def invoke_def example_defs action_defs
          StatusOK_def StatusNotFound_def Let_def)
  from g1 g2 g3 run
  have out: "BatchReplication examplePackage exampleRegistry nullEntryRequest ([], []) =
               ([Panics NilPointerDereference],
                ([''i1''],
                 [RegisterInstances ''tok'' ''svca''
                    (Some \<lparr>ex_InstanceId = ''i1'', ex_Port = Some 8080,
                            ex_RealPort = 8080\<rparr>) True]))"
    by (simp add: BatchReplication_def)
  from out
  have none: "\<not> (\<exists>resp resultCode.
                   WriteEurekaResponseWithCode resp resultCode \<in>
                     set (fst (BatchReplication examplePackage exampleRegistry nullEntryRequest
                                 ([], []))))"
    by simp
  from g1 g2 g3 out none show ?thesis by blast
qed

text \<open>
  C3. A request whose declared source identity is this node's own identity string
  (\<^verbatim>\<open>valueIdentityName\<close>) is answered at once with an empty response list and the
  aggregate ExecuteSuccess, whatever its body and credential are; the world is the one
  the handler started in, so the registry state is untouched and no registry operation
  was invoked.
\<close>

theorem BatchReplication_self_echo:
  assumes "HeaderParameter req headerIdentityName = valueIdentityName"
  shows "BatchReplication pkg h req w =
           ([WriteEurekaResponseWithCode \<lparr>ResponseList = []\<rparr> ExecuteSuccess], w)"
  using assms by (simp add: BatchReplication_def writeEurekaResponse_def)

theorem BatchReplication_self_echo_witness:
  "HeaderParameter (exampleRequest valueIdentityName ''Basic tok'' (Some exampleBatch))
     headerIdentityName = valueIdentityName
   \<and> BatchReplication examplePackage exampleRegistry
       (exampleRequest valueIdentityName ''Basic tok'' (Some exampleBatch)) ([''i9''], []) =
       ([WriteEurekaResponseWithCode \<lparr>ResponseList = []\<rparr> ExecuteSuccess], ([''i9''], []))"
proof -
  have g: "HeaderParameter (exampleRequest valueIdentityName ''Basic tok'' (Some exampleBatch))
             headerIdentityName = valueIdentityName"
    by (simp add: HeaderParameter_def exampleRequest_def headerIdentityName_def)
  from BatchReplication_self_echo [OF g, of examplePackage exampleRegistry "([''i9''], [])"] g
  show ?thesis by blast
qed

text \<open>
  C4 (as amended). For a request whose declared source identity is not this node's own:
  if the body does not decode, the handler writes the protocol code ParseException and the
  status 400; if the body decodes and no credential can be read from the headers, it
  writes the protocol code ExecuteException and the status 403. In both cases that is all
  it writes (no response list, so no per-task outcome) and the world is unchanged: no
  task was applied.
\<close>

theorem BatchReplication_rejections:
  assumes "HeaderParameter req headerIdentityName \<noteq> valueIdentityName"
  shows "(rq_Entity req = None \<longrightarrow>
            BatchReplication pkg h req w =
              ([WritePolarisStatusCode ParseException, WriteHeader 400], w))
         \<and> (rq_Entity req \<noteq> None \<and> getAuthFromEurekaRequestHeader pkg req = None \<longrightarrow>
              BatchReplication pkg h req w =
                ([WritePolarisStatusCode ExecuteException, WriteHeader 403], w))"
  using assms
  by (auto simp add: BatchReplication_def StatusBadRequest_def StatusForbidden_def)

theorem BatchReplication_rejections_witness:
  "HeaderParameter (exampleRequest ''peer'' ''Basic tok'' None) headerIdentityName \<noteq>
     valueIdentityName
   \<and> rq_Entity (exampleRequest ''peer'' ''Basic tok'' None) = None
   \<and> BatchReplication examplePackage exampleRegistry
       (exampleRequest ''peer'' ''Basic tok'' None) ([''i9''], []) =
       ([WritePolarisStatusCode ParseException, WriteHeader 400], ([''i9''], []))
   \<and> HeaderParameter (exampleRequest ''peer'' ''Bearer tok'' (Some exampleBatch))
       headerIdentityName \<noteq> valueIdentityName
   \<and> rq_Entity (exampleRequest ''peer'' ''Bearer tok'' (Some exampleBatch)) \<noteq> None
   \<and> getAuthFromEurekaRequestHeader examplePackage
       (exampleRequest ''peer'' ''Bearer tok'' (Some exampleBatch)) = None
   \<and> BatchReplication examplePackage exampleRegistry
       (exampleRequest ''peer'' ''Bearer tok'' (Some exampleBatch)) ([''i9''], []) =
       ([WritePolarisStatusCode ExecuteException, WriteHeader 403], ([''i9''], []))"
proof -
  let ?bad = "exampleRequest ''peer'' ''Basic tok'' None"
  let ?noauth = "exampleRequest ''peer'' ''Bearer tok'' (Some exampleBatch)"
  have b1: "HeaderParameter ?bad headerIdentityName \<noteq> valueIdentityName"
    by (simp add: HeaderParameter_def exampleRequest_def headerIdentityName_def
          valueIdentityName_def)
  have b2: "rq_Entity ?bad = None"
    by (simp add: exampleRequest_def)
  have n1: "HeaderParameter ?noauth headerIdentityName \<noteq> valueIdentityName"
    by (simp add: HeaderParameter_def exampleRequest_def headerIdentityName_def
          valueIdentityName_def)
  have n2: "rq_Entity ?noauth \<noteq> None"
    by (simp add: exampleRequest_def)
  have n3: "getAuthFromEurekaRequestHeader examplePackage ?noauth = None"
    by (simp add: examplePackage_def exampleAuth_def exampleRequest_def headerIdentityName_def)
  from BatchReplication_rejections [OF b1, of examplePackage exampleRegistry "([''i9''], [])"] b2
  have r1: "BatchReplication examplePackage exampleRegistry ?bad ([''i9''], []) =
              ([WritePolarisStatusCode ParseException, WriteHeader 400], ([''i9''], []))"
    by blast
  from BatchReplication_rejections [OF n1, of examplePackage exampleRegistry "([''i9''], [])"] n2 n3
  have r2: "BatchReplication examplePackage exampleRegistry ?noauth ([''i9''], []) =
              ([WritePolarisStatusCode ExecuteException, WriteHeader 403], ([''i9''], []))"
    by blast
  from b1 b2 r1 n1 n2 n3 r2 show ?thesis by blast
qed

text \<open>
  The claim as stated fails in two places. A request from a peer whose body decodes but
  whose credential cannot be read is rejected with the code ExecuteException, not
  AuthException; and a request that declares this node's own identity is answered with
  the empty success batch even when its body does not decode, since the identity is
  looked at before the body.
\<close>

theorem BatchReplication_rejections_counterexample:
  "fst (BatchReplication examplePackage exampleRegistry
          (exampleRequest ''peer'' ''Bearer tok'' (Some exampleBatch)) ([], [])) =
     [WritePolarisStatusCode ExecuteException, WriteHeader 403]
   \<and> fst (BatchReplication examplePackage exampleRegistry
            (exampleRequest ''peer'' ''Bearer tok'' (Some exampleBatch)) ([], [])) \<noteq>
       [WritePolarisStatusCode AuthException, WriteHeader 403]
   \<and> getAuthFromEurekaRequestHeader examplePackage
       (exampleRequest ''peer'' ''Bearer tok'' (Some exampleBatch)) = None
   \<and> rq_Entity (exampleRequest valueIdentityName ''Basic tok'' None) = None
   \<and> fst (BatchReplication examplePackage exampleRegistry
            (exampleRequest valueIdentityName ''Basic tok'' None) ([], [])) =
       [WriteEurekaResponseWithCode \<lparr>ResponseList = []\<rparr> ExecuteSuccess]"
  by (simp add: BatchReplication_def HeaderParameter_def exampleRequest_def examplePackage_def
        exampleAuth_def headerIdentityName_def valueIdentityName_def writeEurekaResponse_def
        StatusForbidden_def)

section \<open>The outbound path\<close>

lemma ParseBool_true:
  "fst (ParseBool v) \<longleftrightarrow> v \<in> {''1'', ''t'', ''T'', ''true'', ''TRUE'', ''True''}"
  by (simp add: ParseBool_def)

lemma shouldReplicate_iff:
  "shouldReplicate pkg namespace e \<longleftrightarrow>
     ev_Namespace e = namespace
     \<and> \<not> (\<exists>v. ev_MetaData e (MetadataReplicate pkg) = Some v \<and> fst (ParseBool v))"
proof (cases "dom (ev_MetaData e) = {}")
  case True
  then have "ev_MetaData e (MetadataReplicate pkg) = None" by simp
  with True show ?thesis by (simp add: shouldReplicate_def)
next
  case False
  then show ?thesis
    by (simp add: shouldReplicate_def Let_def split: option.splits)
qed

text \<open>
  C5. \<^verbatim>\<open>shouldReplicate\<close> is false for every event whose namespace is not the
  node's, and for every event whose metadata holds the replicate flag with a value that
  \<^verbatim>\<open>strconv.ParseBool\<close> reads as true (one of 1, t, T, true, TRUE, True); it is
  true for every other event, so for an event of the node's namespace whose flag is
  absent or is not read as true. It is a function of the node's namespace, the flag's
  key and the event alone: it reads no state and changes none.
\<close>

theorem shouldReplicate_cases:
  "(ev_Namespace e \<noteq> namespace \<longrightarrow> \<not> shouldReplicate pkg namespace e)
   \<and> (\<forall>v. ev_MetaData e (MetadataReplicate pkg) = Some v \<and> fst (ParseBool v) \<longrightarrow>
          \<not> shouldReplicate pkg namespace e)
   \<and> (ev_Namespace e = namespace
        \<and> \<not> (\<exists>v. ev_MetaData e (MetadataReplicate pkg) = Some v \<and> fst (ParseBool v)) \<longrightarrow>
          shouldReplicate pkg namespace e)
   \<and> (ev_Namespace e = namespace \<and> ev_MetaData e (MetadataReplicate pkg) = None \<longrightarrow>
          shouldReplicate pkg namespace e)
   \<and> (\<forall>v. fst (ParseBool v) \<longleftrightarrow> v \<in> {''1'', ''t'', ''T'', ''true'', ''TRUE'', ''True''})"
  by (simp add: shouldReplicate_iff ParseBool_true)

theorem shouldReplicate_cases_witness:
  "\<not> shouldReplicate examplePackage ''other''
       (exampleEvent EventInstanceOnline True False Map.empty)
   \<and> \<not> shouldReplicate examplePackage ''default''
         (exampleEvent EventInstanceOnline True False [''internal-eureka-replicate'' \<mapsto> ''true''])
   \<and> shouldReplicate examplePackage ''default''
       (exampleEvent EventInstanceOnline True False [''internal-eureka-replicate'' \<mapsto> ''no''])
   \<and> shouldReplicate examplePackage ''default''
       (exampleEvent EventInstanceOnline True False [''zone'' \<mapsto> ''a''])"
proof -
  let ?foreign = "exampleEvent EventInstanceOnline True False Map.empty"
  let ?flagged = "exampleEvent EventInstanceOnline True False
                    [''internal-eureka-replicate'' \<mapsto> ''true'']"
  let ?unread = "exampleEvent EventInstanceOnline True False
                   [''internal-eureka-replicate'' \<mapsto> ''no'']"
  let ?plain = "exampleEvent EventInstanceOnline True False [''zone'' \<mapsto> ''a'']"
  have f: "ev_Namespace ?foreign \<noteq> ''other''"
    by (simp add: exampleEvent_def)
  from shouldReplicate_cases [of ?foreign "''other''" examplePackage] f
  have a: "\<not> shouldReplicate examplePackage ''other'' ?foreign"
    by blast
  have t: "ev_MetaData ?flagged (MetadataReplicate examplePackage) = Some ''true''
           \<and> fst (ParseBool ''true'')"
    by (simp add: exampleEvent_def examplePackage_def ParseBool_def)
  from shouldReplicate_cases [of ?flagged "''default''" examplePackage] t
  have b: "\<not> shouldReplicate examplePackage ''default'' ?flagged"
    by blast
  have u: "ev_Namespace ?unread = ''default''
           \<and> \<not> (\<exists>v. ev_MetaData ?unread (MetadataReplicate examplePackage) = Some v
                     \<and> fst (ParseBool v))"
    by (simp add: exampleEvent_def examplePackage_def ParseBool_def)
  from shouldReplicate_cases [of ?unread "''default''" examplePackage] u
  have c: "shouldReplicate examplePackage ''default'' ?unread"
    by blast
  have p: "ev_Namespace ?plain = ''default''
           \<and> ev_MetaData ?plain (MetadataReplicate examplePackage) = None"
    by (simp add: exampleEvent_def examplePackage_def)
  from shouldReplicate_cases [of ?plain "''default''" examplePackage] p
  have d: "shouldReplicate examplePackage ''default'' ?plain"
    by blast
  from a b c d show ?thesis by blast
qed

text \<open>
  C6. For an event of kind InstanceSendHeartbeat that is eligible to replicate,
  \<^verbatim>\<open>handleInstanceEvent\<close> hands the replicate worker exactly one task: its action is
  Heartbeat, its status Up, its app name the formatted service name, its id the event's.
  Its snapshot is what \<^verbatim>\<open>buildInstance\<close> returns for the formatted service name, the
  clock reading and the instance assembled from the event: the event's id, and host,
  port, protocol, version, priority, weight, health-check switch and configuration,
  healthy and isolate flags, location and metadata as the event's instance has them (an
  absent wrapper, or an absent instance, gives the zero value). Its overridden status is
  OutOfService when the event's instance is isolated and is unset (the empty string,
  which OutOfService is not) otherwise.
\<close>

theorem handleInstanceEvent_heartbeat:
  assumes "ev_EType e = EventInstanceSendHeartbeat"
    and "shouldReplicate pkg namespace e"
  shows "(\<forall>i. ev_Instance e = Some i \<longrightarrow>
            handleInstanceEvent pkg namespace curTimeMilli e queue =
              queue @
                [\<lparr>ri_AppName = formatReadName pkg (ev_Service e),
                  ri_Id = ev_Id e,
                  ri_LastDirtyTimestamp = 0,
                  ri_OverriddenStatus =
                    (if pb_Isolate i = Some True then StatusOutOfService else []),
                  ri_Status = StatusUp,
                  ri_InstanceInfo =
                    buildInstance pkg (formatReadName pkg (ev_Service e))
                      \<lparr>pb_Id = Some (ev_Id e),
                       pb_Host = Some (case pb_Host i of None \<Rightarrow> [] | Some v \<Rightarrow> v),
                       pb_Port = Some (case pb_Port i of None \<Rightarrow> 0 | Some v \<Rightarrow> v),
                       pb_Protocol = Some (case pb_Protocol i of None \<Rightarrow> [] | Some v \<Rightarrow> v),
                       pb_Version = Some (case pb_Version i of None \<Rightarrow> [] | Some v \<Rightarrow> v),
                       pb_Priority = Some (case pb_Priority i of None \<Rightarrow> 0 | Some v \<Rightarrow> v),
                       pb_Weight = Some (case pb_Weight i of None \<Rightarrow> 0 | Some v \<Rightarrow> v),
                       pb_EnableHealthCheck = Some (pb_EnableHealthCheck i = Some True),
                       pb_HealthCheck = pb_HealthCheck i,
                       pb_Healthy = Some (pb_Healthy i = Some True),
                       pb_Isolate = Some (pb_Isolate i = Some True),
                       pb_Location = pb_Location i,
                       pb_Metadata = pb_Metadata i\<rparr>
                      curTimeMilli,
                  ri_Action = actionHeartbeat\<rparr>])
         \<and> (ev_Instance e = None \<longrightarrow>
              handleInstanceEvent pkg namespace curTimeMilli e queue =
                queue @
                  [\<lparr>ri_AppName = formatReadName pkg (ev_Service e),
                    ri_Id = ev_Id e,
                    ri_LastDirtyTimestamp = 0,
                    ri_OverriddenStatus = [],
                    ri_Status = StatusUp,
                    ri_InstanceInfo =
                      buildInstance pkg (formatReadName pkg (ev_Service e))
                        \<lparr>pb_Id = Some (ev_Id e), pb_Host = Some [], pb_Port = Some 0,
                         pb_Protocol = Some [], pb_Version = Some [], pb_Priority = Some 0,
                         pb_Weight = Some 0, pb_EnableHealthCheck = Some False,
                         pb_HealthCheck = None, pb_Healthy = Some False,
                         pb_Isolate = Some False, pb_Location = None,
                         pb_Metadata = Map.empty\<rparr>
                        curTimeMilli,
                    ri_Action = actionHeartbeat\<rparr>])
         \<and> StatusOutOfService \<noteq> []"
proof (intro conjI allI impI)
  fix i
  assume i: "ev_Instance e = Some i"
  have iso: "GetBool (pb_Isolate i) = (pb_Isolate i = Some True)"
    by (cases "pb_Isolate i") (simp_all add: GetBool_def)
  have hea: "GetBool (pb_Healthy i) = (pb_Healthy i = Some True)"
    by (cases "pb_Healthy i") (simp_all add: GetBool_def)
  have ena: "GetBool (pb_EnableHealthCheck i) = (pb_EnableHealthCheck i = Some True)"
    by (cases "pb_EnableHealthCheck i") (simp_all add: GetBool_def)
  from assms i iso hea ena
  show "handleInstanceEvent pkg namespace curTimeMilli e queue =
          queue @
            [\<lparr>ri_AppName = formatReadName pkg (ev_Service e),
              ri_Id = ev_Id e,
              ri_LastDirtyTimestamp = 0,
              ri_OverriddenStatus =
                (if pb_Isolate i = Some True then StatusOutOfService else []),
              ri_Status = StatusUp,
              ri_InstanceInfo =
                buildInstance pkg (formatReadName pkg (ev_Service e))
                  \<lparr>pb_Id = Some (ev_Id e),
                   pb_Host = Some (case pb_Host i of None \<Rightarrow> [] | Some v \<Rightarrow> v),
                   pb_Port = Some (case pb_Port i of None \<Rightarrow> 0 | Some v \<Rightarrow> v),
                   pb_Protocol = Some (case pb_Protocol i of None \<Rightarrow> [] | Some v \<Rightarrow> v),
                   pb_Version = Some (case pb_Version i of None \<Rightarrow> [] | Some v \<Rightarrow> v),
                   pb_Priority = Some (case pb_Priority i of None \<Rightarrow> 0 | Some v \<Rightarrow> v),
                   pb_Weight = Some (case pb_Weight i of None \<Rightarrow> 0 | Some v \<Rightarrow> v),
                   pb_EnableHealthCheck = Some (pb_EnableHealthCheck i = Some True),
                   pb_HealthCheck = pb_HealthCheck i,
                   pb_Healthy = Some (pb_Healthy i = Some True),
                   pb_Isolate = Some (pb_Isolate i = Some True),
                   pb_Location = pb_Location i,
                   pb_Metadata = pb_Metadata i\<rparr>
                  curTimeMilli,
              ri_Action = actionHeartbeat\<rparr>]"
    by (simp add: handleInstanceEvent_def eventToInstance_def eventInstance_def zeroTask_def
          Let_def getter_defs)
next
  assume "ev_Instance e = None"
  with assms
  show "handleInstanceEvent pkg namespace curTimeMilli e queue =
          queue @
            [\<lparr>ri_AppName = formatReadName pkg (ev_Service e),
              ri_Id = ev_Id e,
              ri_LastDirtyTimestamp = 0,
              ri_OverriddenStatus = [],
              ri_Status = StatusUp,
              ri_InstanceInfo =
                buildInstance pkg (formatReadName pkg (ev_Service e))
                  \<lparr>pb_Id = Some (ev_Id e), pb_Host = Some [], pb_Port = Some 0,
                   pb_Protocol = Some [], pb_Version = Some [], pb_Priority = Some 0,
                   pb_Weight = Some 0, pb_EnableHealthCheck = Some False,
                   pb_HealthCheck = None, pb_Healthy = Some False,
                   pb_Isolate = Some False, pb_Location = None,
                   pb_Metadata = Map.empty\<rparr>
                  curTimeMilli,
              ri_Action = actionHeartbeat\<rparr>]"
    by (simp add: handleInstanceEvent_def eventToInstance_def eventInstance_def zeroTask_def
          Let_def getter_defs GetBool_def)
next
  show "StatusOutOfService \<noteq> []"
    by (simp add: StatusOutOfService_def)
qed

theorem handleInstanceEvent_heartbeat_witness:
  "ev_EType (exampleEvent EventInstanceSendHeartbeat True True Map.empty) =
     EventInstanceSendHeartbeat
   \<and> shouldReplicate transparentPackage ''default''
       (exampleEvent EventInstanceSendHeartbeat True True Map.empty)
   \<and> handleInstanceEvent transparentPackage ''default'' 1700000000000
       (exampleEvent EventInstanceSendHeartbeat True True Map.empty) [] =
       [\<lparr>ri_AppName = ''svca'', ri_Id = ''i1'', ri_LastDirtyTimestamp = 0,
         ri_OverriddenStatus = ''OUT_OF_SERVICE'', ri_Status = ''UP'',
         ri_InstanceInfo =
           Some \<lparr>pb_Id = Some ''i1'', pb_Host = Some ''10.0.0.1'', pb_Port = Some 8080,
                 pb_Protocol = Some ''http'', pb_Version = Some [], pb_Priority = Some 1,
                 pb_Weight = Some 100, pb_EnableHealthCheck = Some True,
                 pb_HealthCheck = Some 5, pb_Healthy = Some True, pb_Isolate = Some True,
                 pb_Location = Some 7, pb_Metadata = [''zone'' \<mapsto> ''a'']\<rparr>,
         ri_Action = ''Heartbeat''\<rparr>]
   \<and> ev_EType (exampleEvent EventInstanceSendHeartbeat False False Map.empty) =
       EventInstanceSendHeartbeat
   \<and> shouldReplicate transparentPackage ''default''
       (exampleEvent EventInstanceSendHeartbeat False False Map.empty)
   \<and> handleInstanceEvent transparentPackage ''default'' 1700000000000
       (exampleEvent EventInstanceSendHeartbeat False False Map.empty) [] =
       [\<lparr>ri_AppName = ''svca'', ri_Id = ''i1'', ri_LastDirtyTimestamp = 0,
         ri_OverriddenStatus = [], ri_Status = ''UP'',
         ri_InstanceInfo =
           Some \<lparr>pb_Id = Some ''i1'', pb_Host = Some ''10.0.0.1'', pb_Port = Some 8080,
                 pb_Protocol = Some ''http'', pb_Version = Some [], pb_Priority = Some 1,
                 pb_Weight = Some 100, pb_EnableHealthCheck = Some True,
                 pb_HealthCheck = Some 5, pb_Healthy = Some False, pb_Isolate = Some False,
                 pb_Location = Some 7, pb_Metadata = [''zone'' \<mapsto> ''a'']\<rparr>,
         ri_Action = ''Heartbeat''\<rparr>]
   \<and> handleInstanceEvent examplePackage ''default'' 1700000000000
       (exampleEvent EventInstanceSendHeartbeat True True Map.empty) [] =
       [\<lparr>ri_AppName = ''svca'', ri_Id = ''i1'', ri_LastDirtyTimestamp = 0,
         ri_OverriddenStatus = ''OUT_OF_SERVICE'', ri_Status = ''UP'',
         ri_InstanceInfo =
           Some \<lparr>ex_InstanceId = ''i1'', ex_Port = Some 8080, ex_RealPort = 8080\<rparr>,
         ri_Action = ''Heartbeat''\<rparr>]"
proof -
  let ?iso = "exampleEvent EventInstanceSendHeartbeat True True Map.empty"
  let ?free = "exampleEvent EventInstanceSendHeartbeat False False Map.empty"
  have k1: "ev_EType ?iso = EventInstanceSendHeartbeat"
    by (simp add: exampleEvent_def)
  have s1: "shouldReplicate transparentPackage ''default'' ?iso"
    by (simp add: shouldReplicate_def exampleEvent_def)
  have s1': "shouldReplicate examplePackage ''default'' ?iso"
    by (simp add: shouldReplicate_def exampleEvent_def)
  have k2: "ev_EType ?free = EventInstanceSendHeartbeat"
    by (simp add: exampleEvent_def)
  have s2: "shouldReplicate transparentPackage ''default'' ?free"
    by (simp add: shouldReplicate_def exampleEvent_def)
  from handleInstanceEvent_heartbeat [OF k1 s1, of 1700000000000 "[]"]
  have a: "handleInstanceEvent transparentPackage ''default'' 1700000000000 ?iso [] =
             [\<lparr>ri_AppName = ''svca'', ri_Id = ''i1'', ri_LastDirtyTimestamp = 0,
               ri_OverriddenStatus = ''OUT_OF_SERVICE'', ri_Status = ''UP'',
               ri_InstanceInfo =
                 Some \<lparr>pb_Id = Some ''i1'', pb_Host = Some ''10.0.0.1'', pb_Port = Some 8080,
                       pb_Protocol = Some ''http'', pb_Version = Some [], pb_Priority = Some 1,
                       pb_Weight = Some 100, pb_EnableHealthCheck = Some True,
                       pb_HealthCheck = Some 5, pb_Healthy = Some True, pb_Isolate = Some True,
                       pb_Location = Some 7, pb_Metadata = [''zone'' \<mapsto> ''a'']\<rparr>,
               ri_Action = ''Heartbeat''\<rparr>]"
    by (simp add: exampleEvent_def transparentPackage_def toLower_def StatusOutOfService_def
          StatusUp_def actionHeartbeat_def)
  from handleInstanceEvent_heartbeat [OF k2 s2, of 1700000000000 "[]"]
  have b: "handleInstanceEvent transparentPackage ''default'' 1700000000000 ?free [] =
             [\<lparr>ri_AppName = ''svca'', ri_Id = ''i1'', ri_LastDirtyTimestamp = 0,
               ri_OverriddenStatus = [], ri_Status = ''UP'',
               ri_InstanceInfo =
                 Some \<lparr>pb_Id = Some ''i1'', pb_Host = Some ''10.0.0.1'', pb_Port = Some 8080,
                       pb_Protocol = Some ''http'', pb_Version = Some [], pb_Priority = Some 1,
                       pb_Weight = Some 100, pb_EnableHealthCheck = Some True,
                       pb_HealthCheck = Some 5, pb_Healthy = Some False,
                       pb_Isolate = Some False, pb_Location = Some 7,
                       pb_Metadata = [''zone'' \<mapsto> ''a'']\<rparr>,
               ri_Action = ''Heartbeat''\<rparr>]"
    by (simp add: exampleEvent_def transparentPackage_def toLower_def StatusOutOfService_def
          StatusUp_def actionHeartbeat_def)
  from handleInstanceEvent_heartbeat [OF k1 s1', of 1700000000000 "[]"]
  have c: "handleInstanceEvent examplePackage ''default'' 1700000000000 ?iso [] =
             [\<lparr>ri_AppName = ''svca'', ri_Id = ''i1'', ri_LastDirtyTimestamp = 0,
               ri_OverriddenStatus = ''OUT_OF_SERVICE'', ri_Status = ''UP'',
               ri_InstanceInfo =
                 Some \<lparr>ex_InstanceId = ''i1'', ex_Port = Some 8080, ex_RealPort = 8080\<rparr>,
               ri_Action = ''Heartbeat''\<rparr>]"
    by (simp add: exampleEvent_def examplePackage_def exampleBuildInstance_def toLower_def
          StatusOutOfService_def StatusUp_def actionHeartbeat_def GetString_def GetUInt32_def)
  from k1 s1 a k2 s2 b c show ?thesis by blast
qed

text \<open>
  C7. For an event of kind InstanceOffline that is eligible to replicate,
  \<^verbatim>\<open>handleInstanceEvent\<close> hands the replicate worker exactly one task: its action is
  Cancel, it carries the formatted service name and the event's instance id, and every
  other field is unset; in particular it has no snapshot.
\<close>

theorem handleInstanceEvent_offline:
  assumes "ev_EType e = EventInstanceOffline"
    and "shouldReplicate pkg namespace e"
  shows "handleInstanceEvent pkg namespace curTimeMilli e queue =
           queue @
             [\<lparr>ri_AppName = formatReadName pkg (ev_Service e),
               ri_Id = ev_Id e,
               ri_LastDirtyTimestamp = 0,
               ri_OverriddenStatus = [],
               ri_Status = [],
               ri_InstanceInfo = None,
               ri_Action = actionCancel\<rparr>]"
  using assms
  by (simp add: handleInstanceEvent_def zeroTask_def Let_def)

theorem handleInstanceEvent_offline_witness:
  "ev_EType (exampleEvent EventInstanceOffline True False Map.empty) = EventInstanceOffline
   \<and> shouldReplicate examplePackage ''default''
       (exampleEvent EventInstanceOffline True False Map.empty)
   \<and> handleInstanceEvent examplePackage ''default'' 1700000000000
       (exampleEvent EventInstanceOffline True False Map.empty) [] =
       [\<lparr>ri_AppName = ''svca'', ri_Id = ''i1'', ri_LastDirtyTimestamp = 0,
         ri_OverriddenStatus = [], ri_Status = [], ri_InstanceInfo = None,
         ri_Action = ''Cancel''\<rparr>]"
proof -
  let ?off = "exampleEvent EventInstanceOffline True False Map.empty"
  have k: "ev_EType ?off = EventInstanceOffline"
    by (simp add: exampleEvent_def)
  have s: "shouldReplicate examplePackage ''default'' ?off"
    by (simp add: shouldReplicate_def exampleEvent_def)
  from handleInstanceEvent_offline [OF k s, of 1700000000000 "[]"]
  have "handleInstanceEvent examplePackage ''default'' 1700000000000 ?off [] =
          [\<lparr>ri_AppName = ''svca'', ri_Id = ''i1'', ri_LastDirtyTimestamp = 0,
            ri_OverriddenStatus = [], ri_Status = [], ri_InstanceInfo = None,
            ri_Action = ''Cancel''\<rparr>]"
    by (simp add: exampleEvent_def examplePackage_def toLower_def actionCancel_def)
  with k s show ?thesis by blast
qed

text \<open>
  C8. The snapshot \<^verbatim>\<open>eventToInstance\<close> returns is \<^verbatim>\<open>buildInstance\<close> applied to the
  instance assembled from the event. That instance has the event's id; its host, port,
  protocol, version, priority, weight and health-check switch are the values of the
  event's instance (the zero value for an absent wrapper), and its health-check
  configuration, location and metadata are those of the event's instance as they are. Its
  healthy flag is true for a turn-health event and false for a turn-unhealth event, its
  isolate flag true for an open-isolate event and false for a close-isolate event,
  whatever the flags of the event's instance are; for any other kind the flag is the one
  of the event's instance. An event without an instance gives zero values throughout,
  under the same overrides.
\<close>

theorem eventToInstance_copies:
  "eventToInstance pkg e appName curTimeMilli =
     buildInstance pkg appName (eventInstance e) curTimeMilli
   \<and> (\<forall>i. ev_Instance e = Some i \<longrightarrow>
          eventInstance e =
            \<lparr>pb_Id = Some (ev_Id e),
             pb_Host = Some (case pb_Host i of None \<Rightarrow> [] | Some v \<Rightarrow> v),
             pb_Port = Some (case pb_Port i of None \<Rightarrow> 0 | Some v \<Rightarrow> v),
             pb_Protocol = Some (case pb_Protocol i of None \<Rightarrow> [] | Some v \<Rightarrow> v),
             pb_Version = Some (case pb_Version i of None \<Rightarrow> [] | Some v \<Rightarrow> v),
             pb_Priority = Some (case pb_Priority i of None \<Rightarrow> 0 | Some v \<Rightarrow> v),
             pb_Weight = Some (case pb_Weight i of None \<Rightarrow> 0 | Some v \<Rightarrow> v),
             pb_EnableHealthCheck = Some (pb_EnableHealthCheck i = Some True),
             pb_HealthCheck = pb_HealthCheck i,
             pb_Healthy =
               Some (if ev_EType e = EventInstanceTurnHealth then True
                     else if ev_EType e = EventInstanceTurnUnHealth then False
                     else pb_Healthy i = Some True),
             pb_Isolate =
               Some (if ev_EType e = EventInstanceOpenIsolate then True
                     else if ev_EType e = EventInstanceCloseIsolate then False
                     else pb_Isolate i = Some True),
             pb_Location = pb_Location i,
             pb_Metadata = pb_Metadata i\<rparr>)
   \<and> (ev_Instance e = None \<longrightarrow>
        eventInstance e =
          \<lparr>pb_Id = Some (ev_Id e), pb_Host = Some [], pb_Port = Some 0,
           pb_Protocol = Some [], pb_Version = Some [], pb_Priority = Some 0,
           pb_Weight = Some 0, pb_EnableHealthCheck = Some False, pb_HealthCheck = None,
           pb_Healthy = Some (ev_EType e = EventInstanceTurnHealth),
           pb_Isolate = Some (ev_EType e = EventInstanceOpenIsolate),
           pb_Location = None, pb_Metadata = Map.empty\<rparr>)
   \<and> (ev_EType e = EventInstanceTurnHealth \<longrightarrow> pb_Healthy (eventInstance e) = Some True)
   \<and> (ev_EType e = EventInstanceTurnUnHealth \<longrightarrow> pb_Healthy (eventInstance e) = Some False)
   \<and> (ev_EType e = EventInstanceOpenIsolate \<longrightarrow> pb_Isolate (eventInstance e) = Some True)
   \<and> (ev_EType e = EventInstanceCloseIsolate \<longrightarrow> pb_Isolate (eventInstance e) = Some False)"
proof (intro conjI allI impI)
  show "eventToInstance pkg e appName curTimeMilli =
          buildInstance pkg appName (eventInstance e) curTimeMilli"
    by (simp add: eventToInstance_def)
next
  fix i
  assume i: "ev_Instance e = Some i"
  have iso: "GetBool (pb_Isolate i) = (pb_Isolate i = Some True)"
    by (cases "pb_Isolate i") (simp_all add: GetBool_def)
  have hea: "GetBool (pb_Healthy i) = (pb_Healthy i = Some True)"
    by (cases "pb_Healthy i") (simp_all add: GetBool_def)
  have ena: "GetBool (pb_EnableHealthCheck i) = (pb_EnableHealthCheck i = Some True)"
    by (cases "pb_EnableHealthCheck i") (simp_all add: GetBool_def)
  from i iso hea ena
  show "eventInstance e =
          \<lparr>pb_Id = Some (ev_Id e),
           pb_Host = Some (case pb_Host i of None \<Rightarrow> [] | Some v \<Rightarrow> v),
           pb_Port = Some (case pb_Port i of None \<Rightarrow> 0 | Some v \<Rightarrow> v),
           pb_Protocol = Some (case pb_Protocol i of None \<Rightarrow> [] | Some v \<Rightarrow> v),
           pb_Version = Some (case pb_Version i of None \<Rightarrow> [] | Some v \<Rightarrow> v),
           pb_Priority = Some (case pb_Priority i of None \<Rightarrow> 0 | Some v \<Rightarrow> v),
           pb_Weight = Some (case pb_Weight i of None \<Rightarrow> 0 | Some v \<Rightarrow> v),
           pb_EnableHealthCheck = Some (pb_EnableHealthCheck i = Some True),
           pb_HealthCheck = pb_HealthCheck i,
           pb_Healthy =
             Some (if ev_EType e = EventInstanceTurnHealth then True
                   else if ev_EType e = EventInstanceTurnUnHealth then False
                   else pb_Healthy i = Some True),
           pb_Isolate =
             Some (if ev_EType e = EventInstanceOpenIsolate then True
                   else if ev_EType e = EventInstanceCloseIsolate then False
                   else pb_Isolate i = Some True),
           pb_Location = pb_Location i,
           pb_Metadata = pb_Metadata i\<rparr>"
    by (simp add: eventInstance_def Let_def getter_defs)
next
  assume "ev_Instance e = None"
  then show "eventInstance e =
          \<lparr>pb_Id = Some (ev_Id e), pb_Host = Some [], pb_Port = Some 0,
           pb_Protocol = Some [], pb_Version = Some [], pb_Priority = Some 0,
           pb_Weight = Some 0, pb_EnableHealthCheck = Some False, pb_HealthCheck = None,
           pb_Healthy = Some (ev_EType e = EventInstanceTurnHealth),
           pb_Isolate = Some (ev_EType e = EventInstanceOpenIsolate),
           pb_Location = None, pb_Metadata = Map.empty\<rparr>"
    by (simp add: eventInstance_def Let_def getter_defs GetBool_def)
next
  assume "ev_EType e = EventInstanceTurnHealth"
  then show "pb_Healthy (eventInstance e) = Some True"
    by (simp add: eventInstance_def Let_def)
next
  assume "ev_EType e = EventInstanceTurnUnHealth"
  then show "pb_Healthy (eventInstance e) = Some False"
    by (simp add: eventInstance_def Let_def)
next
  assume "ev_EType e = EventInstanceOpenIsolate"
  then show "pb_Isolate (eventInstance e) = Some True"
    by (simp add: eventInstance_def Let_def)
next
  assume "ev_EType e = EventInstanceCloseIsolate"
  then show "pb_Isolate (eventInstance e) = Some False"
    by (simp add: eventInstance_def Let_def)
qed

theorem eventToInstance_copies_witness:
  "eventInstance (exampleEvent EventInstanceTurnHealth False True Map.empty) =
     \<lparr>pb_Id = Some ''i1'', pb_Host = Some ''10.0.0.1'', pb_Port = Some 8080,
      pb_Protocol = Some ''http'', pb_Version = Some [], pb_Priority = Some 1,
      pb_Weight = Some 100, pb_EnableHealthCheck = Some True, pb_HealthCheck = Some 5,
      pb_Healthy = Some True, pb_Isolate = Some True, pb_Location = Some 7,
      pb_Metadata = [''zone'' \<mapsto> ''a'']\<rparr>
   \<and> eventInstance (exampleEvent EventInstanceCloseIsolate True True Map.empty) =
       \<lparr>pb_Id = Some ''i1'', pb_Host = Some ''10.0.0.1'', pb_Port = Some 8080,
        pb_Protocol = Some ''http'', pb_Version = Some [], pb_Priority = Some 1,
        pb_Weight = Some 100, pb_EnableHealthCheck = Some True, pb_HealthCheck = Some 5,
        pb_Healthy = Some True, pb_Isolate = Some False, pb_Location = Some 7,
        pb_Metadata = [''zone'' \<mapsto> ''a'']\<rparr>
   \<and> eventInstance (exampleEvent EventInstanceOnline False True Map.empty) =
       \<lparr>pb_Id = Some ''i1'', pb_Host = Some ''10.0.0.1'', pb_Port = Some 8080,
        pb_Protocol = Some ''http'', pb_Version = Some [], pb_Priority = Some 1,
        pb_Weight = Some 100, pb_EnableHealthCheck = Some True, pb_HealthCheck = Some 5,
        pb_Healthy = Some False, pb_Isolate = Some True, pb_Location = Some 7,
        pb_Metadata = [''zone'' \<mapsto> ''a'']\<rparr>
   \<and> pb_Healthy (eventInstance (exampleEvent EventInstanceTurnUnHealth True False Map.empty)) =
       Some False
   \<and> pb_Isolate (eventInstance (exampleEvent EventInstanceOpenIsolate True False Map.empty)) =
       Some True
   \<and> eventInstance
       ((exampleEvent EventInstanceOpenIsolate True False Map.empty)\<lparr>ev_Instance := None\<rparr>) =
       \<lparr>pb_Id = Some ''i1'', pb_Host = Some [], pb_Port = Some 0, pb_Protocol = Some [],
        pb_Version = Some [], pb_Priority = Some 0, pb_Weight = Some 0,
        pb_EnableHealthCheck = Some False, pb_HealthCheck = None, pb_Healthy = Some False,
        pb_Isolate = Some True, pb_Location = None, pb_Metadata = Map.empty\<rparr>
   \<and> eventToInstance transparentPackage
       (exampleEvent EventInstanceTurnHealth False True Map.empty) ''svca'' 1700000000000 =
       Some \<lparr>pb_Id = Some ''i1'', pb_Host = Some ''10.0.0.1'', pb_Port = Some 8080,
             pb_Protocol = Some ''http'', pb_Version = Some [], pb_Priority = Some 1,
             pb_Weight = Some 100, pb_EnableHealthCheck = Some True, pb_HealthCheck = Some 5,
             pb_Healthy = Some True, pb_Isolate = Some True, pb_Location = Some 7,
             pb_Metadata = [''zone'' \<mapsto> ''a'']\<rparr>"
proof -
  let ?up = "exampleEvent EventInstanceTurnHealth False True Map.empty"
  let ?close = "exampleEvent EventInstanceCloseIsolate True True Map.empty"
  let ?on = "exampleEvent EventInstanceOnline False True Map.empty"
  let ?down = "exampleEvent EventInstanceTurnUnHealth True False Map.empty"
  let ?open = "exampleEvent EventInstanceOpenIsolate True False Map.empty"
  let ?bare = "(exampleEvent EventInstanceOpenIsolate True False Map.empty)\<lparr>ev_Instance := None\<rparr>"
  from eventToInstance_copies [of transparentPackage ?up "''svca''" 1700000000000]
  have a: "eventInstance ?up =
             \<lparr>pb_Id = Some ''i1'', pb_Host = Some ''10.0.0.1'', pb_Port = Some 8080,
              pb_Protocol = Some ''http'', pb_Version = Some [], pb_Priority = Some 1,
              pb_Weight = Some 100, pb_EnableHealthCheck = Some True, pb_HealthCheck = Some 5,
              pb_Healthy = Some True, pb_Isolate = Some True, pb_Location = Some 7,
              pb_Metadata = [''zone'' \<mapsto> ''a'']\<rparr>"
    by (simp add: exampleEvent_def)
  from eventToInstance_copies [of transparentPackage ?close "''svca''" 1700000000000]
  have b: "eventInstance ?close =
             \<lparr>pb_Id = Some ''i1'', pb_Host = Some ''10.0.0.1'', pb_Port = Some 8080,
              pb_Protocol = Some ''http'', pb_Version = Some [], pb_Priority = Some 1,
              pb_Weight = Some 100, pb_EnableHealthCheck = Some True, pb_HealthCheck = Some 5,
              pb_Healthy = Some True, pb_Isolate = Some False, pb_Location = Some 7,
              pb_Metadata = [''zone'' \<mapsto> ''a'']\<rparr>"
    by (simp add: exampleEvent_def)
  from eventToInstance_copies [of transparentPackage ?on "''svca''" 1700000000000]
  have c: "eventInstance ?on =
             \<lparr>pb_Id = Some ''i1'', pb_Host = Some ''10.0.0.1'', pb_Port = Some 8080,
              pb_Protocol = Some ''http'', pb_Version = Some [], pb_Priority = Some 1,
              pb_Weight = Some 100, pb_EnableHealthCheck = Some True, pb_HealthCheck = Some 5,
              pb_Healthy = Some False, pb_Isolate = Some True, pb_Location = Some 7,
              pb_Metadata = [''zone'' \<mapsto> ''a'']\<rparr>"
    by (simp add: exampleEvent_def)
  from eventToInstance_copies [of transparentPackage ?down "''svca''" 1700000000000]
  have d: "pb_Healthy (eventInstance ?down) = Some False"
    by (simp add: exampleEvent_def)
  from eventToInstance_copies [of transparentPackage ?open "''svca''" 1700000000000]
  have e: "pb_Isolate (eventInstance ?open) = Some True"
    by (simp add: exampleEvent_def)
  from eventToInstance_copies [of transparentPackage ?bare "''svca''" 1700000000000]
  have f: "eventInstance ?bare =
             \<lparr>pb_Id = Some ''i1'', pb_Host = Some [], pb_Port = Some 0, pb_Protocol = Some [],
              pb_Version = Some [], pb_Priority = Some 0, pb_Weight = Some 0,
              pb_EnableHealthCheck = Some False, pb_HealthCheck = None,
              pb_Healthy = Some False, pb_Isolate = Some True, pb_Location = None,
              pb_Metadata = Map.empty\<rparr>"
    by (simp add: exampleEvent_def)
  from eventToInstance_copies [of transparentPackage ?up "''svca''" 1700000000000] a
  have g: "eventToInstance transparentPackage ?up ''svca'' 1700000000000 =
             Some \<lparr>pb_Id = Some ''i1'', pb_Host = Some ''10.0.0.1'', pb_Port = Some 8080,
                   pb_Protocol = Some ''http'', pb_Version = Some [], pb_Priority = Some 1,
                   pb_Weight = Some 100, pb_EnableHealthCheck = Some True,
                   pb_HealthCheck = Some 5, pb_Healthy = Some True, pb_Isolate = Some True,
                   pb_Location = Some 7, pb_Metadata = [''zone'' \<mapsto> ''a'']\<rparr>"
    by (simp add: transparentPackage_def)
  from a b c d e f g show ?thesis by blast
qed

end
